theory Spec2Isabelle
  imports Main
begin

section \<open>The Grafana reconcile loop of controllers/grafana/grafana\_controller.go\<close>

text \<open>
  The controller is an orchestrator: it calls the object store, the snapshot builder, the
  action runner, the process-wide configuration, the event recorder and the readiness
  channel, and decides what to do next from what they answer. The embedding makes both
  directions explicit. What the collaborators answer during one invocation is an input
  (the record \<open>env\<close>, one field per call site of the source); what the controller asks of
  them is an output (the ordered list of \<open>call\<close>s it makes). Every function of the
  source returns its Go result pair together with the calls it made.
\<close>

subsection \<open>Errors\<close>

text \<open>
  A Go \<open>error\<close> value. The source inspects an error in three ways only:
  \<open>errors.IsNotFound\<close>, \<open>errors.IsConflict\<close> (both of k8s.io/apimachinery) and
  \<open>Error()\<close>, its text. The kind tag is what the two predicates read.
\<close>

datatype error_kind = NotFound | Conflict | Generic

datatype go_error = GoError (err_kind: error_kind) (err_Error: string)

definition IsNotFound :: "go_error \<Rightarrow> bool" where
  "IsNotFound err = (err_kind err = NotFound)"

definition IsConflict :: "go_error \<Rightarrow> bool" where
  "IsConflict err = (err_kind err = Conflict)"

subsection \<open>The Grafana resource\<close>

text \<open>
  The fields of \<open>grafanav1alpha1.Grafana\<close> that the controller reads or writes. The type
  is declared in the api package; the shapes follow the way the source uses them
  (\<open>cr.Spec.Ingress != nil\<close>, \<open>cr.Spec.Client.TimeoutSeconds != nil\<close>): a pointer is an
  \<open>option\<close>. A slice that the source compares with \<open>nil\<close> or with
  \<open>reflect.DeepEqual\<close> is a \<open>list option\<close>, because both tell the nil slice (\<open>None\<close>)
  from the empty one (\<open>Some []\<close>).
\<close>

type_synonym label_selector = "(string \<times> string) list"

datatype dashboard_ref = GrafanaDashboardRef (ref_Name: string) (ref_Hash: string)

datatype status_phase = NoPhase | PhaseReconciling | PhaseFailing

record grafana_status =
  Phase :: status_phase
  Message :: string
  InstalledDashboards :: "dashboard_ref list option"

record grafana_ingress =
  Hostname :: string

text \<open>
  \<open>TimeoutSeconds\<close> is a Go \<open>*int\<close>. The source only compares it with 0 and copies it,
  so no arithmetic can overflow and \<open>int\<close> is exact.
\<close>

record grafana_client =
  TimeoutSeconds :: "int option"

record grafana_spec =
  Ingress :: "grafana_ingress option"
  Client :: "grafana_client option"
  DashboardLabelSelector :: "label_selector list"
  DashboardNamespaceSelector :: "label_selector option"

record grafana =
  Namespace :: string
  Name :: string
  Spec :: grafana_spec
  Status :: grafana_status

type_synonym namespaced_name = "string \<times> string"

subsection \<open>The cluster snapshot\<close>

record route =
  Host :: string

record load_balancer_ingress =
  lb_Hostname :: string
  lb_IP :: string

record ingress =
  LoadBalancerIngress :: "load_balancer_ingress list"

record service =
  svc_Name :: string

record cluster_state =
  GrafanaRoute :: "route option"
  GrafanaIngress :: "ingress option"
  GrafanaService :: "service option"

datatype cluster_action = ClusterAction string

subsection \<open>Readiness events, results and calls\<close>

text \<open>
  \<open>common.ControllerState\<close>, the value sent on \<open>common.ControllerEvents\<close>. The two
  selector fields are never compared, so the nil slice and the empty slice are both
  \<open>[]\<close>.
\<close>

record controller_state =
  cs_DashboardSelectors :: "label_selector list"
  cs_DashboardNamespaceSelector :: "label_selector option"
  AdminUrl :: string
  GrafanaReady :: bool
  ClientTimeout :: int

text \<open>
  The composite literal \<open>common.ControllerState{GrafanaReady: false}\<close>: Go gives every
  field that is left out its zero value.
\<close>

definition notReady :: controller_state where
  "notReady = \<lparr>cs_DashboardSelectors = [], cs_DashboardNamespaceSelector = None,
     AdminUrl = [], GrafanaReady = False, ClientTimeout = 0\<rparr>"

text \<open>
  \<open>reconcile.Result\<close>: \<open>RequeueAfter\<close> is a \<open>time.Duration\<close>, and \<open>reconcile.Result{}\<close>
  is the zero value (no requeue, no delay).
\<close>

record reconcile_result =
  Requeue :: bool
  RequeueAfter :: int

definition emptyResult :: reconcile_result where
  "emptyResult = \<lparr>Requeue = False, RequeueAfter = 0\<rparr>"

datatype config_key = ConfigDashboardLabelSelector | ConfigGrafanaDashboardsSynced

text \<open>
  The calls the controller makes on its collaborators, with their arguments. \<open>Publish\<close>
  is a send on the channel \<open>common.ControllerEvents\<close>; the model takes every send to
  complete. Log lines are left out.
\<close>

datatype call =
    ClientGet namespaced_name
  | StatusUpdate grafana
  | StateRead grafana
  | RunAll "cluster_action list"
  | ReconcileConfigMaps grafana
  | RecorderEvent grafana string string string
  | RemoveConfigItem config_key
  | Cleanup bool
  | InvalidateDashboards
  | GetConfigBool config_key bool
  | SetDashboards "dashboard_ref list"
  | Publish controller_state

record outcome =
  Result :: reconcile_result
  Err :: "go_error option"
  Trace :: "call list"

text \<open>What a function hands back to its caller: the Go result pair.\<close>

definition returned :: "outcome \<Rightarrow> reconcile_result \<times> go_error option" where
  "returned out = (Result out, Err out)"

subsection \<open>The collaborators\<close>

text \<open>
  Everything the controller uses that grafana\_controller.go does not define. The pure
  helpers (\<open>config.RequeueDelay\<close>, \<open>cr.GetPreferServiceValue()\<close>,
  \<open>model.GetGrafanaPort(cr)\<close>, \<open>reconciler.Reconcile(currentState, cr)\<close>) are
  parameters. Every call that can fail or read shared state has one field per place in
  the source where it is made, holding what it answers there: each such place runs at
  most once in an invocation, so distinct fields let the object store answer the three
  fetches differently, as it does when another writer changes the object in between.
  \<open>DashboardsSynced\<close> is the answer of
  \<open>r.Config.GetConfigBool(config.ConfigGrafanaDashboardsSynced, false)\<close> and
  \<open>Config_Dashboards\<close> is the field \<open>r.Config.Dashboards\<close> when line 206 or 208
  reads it.

  The collaborators are taken at their contracts: they answer, and they neither change
  the working copy they are handed nor send on the readiness channel themselves.
\<close>

record env =
  RequeueDelay :: int
  GetPreferServiceValue :: "grafana \<Rightarrow> bool"
  GetGrafanaPort :: "grafana \<Rightarrow> int"
  reconciler_Reconcile :: "cluster_state \<Rightarrow> grafana \<Rightarrow> cluster_action list"
  Get_Reconcile :: "go_error + grafana"
  Read_currentState :: "go_error + cluster_state"
  RunAll_err :: "go_error option"
  reconcileConfigMaps_err :: "go_error option"
  DashboardsSynced :: bool
  Config_Dashboards :: "dashboard_ref list option"
  Get_manageSuccess :: "go_error + grafana"
  Update_manageSuccess :: "go_error option"
  Get_manageError :: "go_error + grafana"
  Update_manageError :: "go_error option"

subsection \<open>Formatting\<close>

text \<open>\<open>%d\<close> of \<open>fmt.Sprintf\<close>: a signed decimal numeral.\<close>

definition digit :: "nat \<Rightarrow> char" where
  "digit d = ''0123456789'' ! (d mod 10)"

fun showNat :: "nat \<Rightarrow> string" where
  "showNat n = (if n < 10 then [digit n] else showNat (n div 10) @ [digit (n mod 10)])"

declare showNat.simps [simp del]

definition showInt :: "int \<Rightarrow> string" where
  "showInt i = (if i < 0 then CHR ''-'' # showNat (nat (- i)) else showNat (nat i))"

text \<open>
  The conversion \<open>int32(x)\<close> of a Go \<open>int\<close>: the low 32 bits, read as a signed number.
\<close>

definition int32 :: "int \<Rightarrow> int" where
  "int32 x = (x + 2147483648) mod 4294967296 - 2147483648"

subsection \<open>getGrafanaAdminUrl\<close>

text \<open>
  The function is three blocks that either return or fall through to the next one. Each
  block is a definition that yields \<open>Some url\<close> where the source returns and \<open>None\<close>
  where it falls through.

  Lines 167 to 169, the route: \<open>state.GrafanaRoute != nil && !preferService\<close>.
\<close>

definition routeUrl :: "bool \<Rightarrow> cluster_state \<Rightarrow> string option" where
  "routeUrl preferService state =
    (case GrafanaRoute state of
       Some rt \<Rightarrow> if \<not> preferService then Some (''https://'' @ Host rt) else None
     | None \<Rightarrow> None)"

text \<open>
  Lines 172 to 186, the ingress: the hostname of the resource when
  \<open>cr.Spec.Ingress != nil && cr.Spec.Ingress.Hostname != ""\<close>, otherwise the first
  load-balancer entry when there is one (its hostname, or its IP when the hostname is
  empty), otherwise nothing.
\<close>

definition ingressUrl :: "bool \<Rightarrow> grafana \<Rightarrow> cluster_state \<Rightarrow> string option" where
  "ingressUrl preferService cr state =
    (case GrafanaIngress state of
       Some ing \<Rightarrow>
         if \<not> preferService then
           (if (case Ingress (Spec cr) of Some si \<Rightarrow> Hostname si \<noteq> [] | None \<Rightarrow> False)
            then (case Ingress (Spec cr) of
                    Some si \<Rightarrow> Some (''https://'' @ Hostname si)
                  | None \<Rightarrow> None)
            else (case LoadBalancerIngress ing of
                    lb # _ \<Rightarrow>
                      if lb_Hostname lb \<noteq> [] then Some (''https://'' @ lb_Hostname lb)
                      else Some (''https://'' @ lb_IP lb)
                  | [] \<Rightarrow> None))
         else None
     | None \<Rightarrow> None)"

text \<open>Lines 188 to 196, the service, and the error when there is none.\<close>

definition serviceUrl :: "env \<Rightarrow> grafana \<Rightarrow> cluster_state \<Rightarrow> go_error + string" where
  "serviceUrl env cr state =
    (let servicePort = int32 (GetGrafanaPort env cr) in
     case GrafanaService state of
       Some svc \<Rightarrow> Inr (''http://'' @ svc_Name svc @ ''.'' @ Namespace cr @
                         ''.svc.cluster.local:'' @ showInt servicePort)
     | None \<Rightarrow> Inl (GoError Generic ''failed to find admin url''))"

definition getGrafanaAdminUrl :: "env \<Rightarrow> grafana \<Rightarrow> cluster_state \<Rightarrow> go_error + string" where
  "getGrafanaAdminUrl env cr state =
    (let preferService = GetPreferServiceValue env cr in
     case routeUrl preferService state of
       Some url \<Rightarrow> Inr url
     | None \<Rightarrow>
         (case ingressUrl preferService cr state of
            Some url \<Rightarrow> Inr url
          | None \<Rightarrow> serviceUrl env cr state))"

subsection \<open>manageError\<close>

definition requeueResult :: "env \<Rightarrow> reconcile_result" where
  "requeueResult env = \<lparr>Requeue = False, RequeueAfter = RequeueDelay env\<rparr>"

text \<open>Lines 130 and 131: the working copy's status becomes Failing, with the error's text.\<close>

definition setFailing :: "grafana \<Rightarrow> go_error \<Rightarrow> grafana" where
  "setFailing cr issue =
     cr\<lparr>Status := (Status cr)\<lparr>Phase := PhaseFailing, Message := err_Error issue\<rparr>\<rparr>"

text \<open>
  The three early returns of the source are the three branches that end without
  \<open>InvalidateDashboards\<close> and \<open>Publish\<close>: the failed fetch (line 136) and the failed
  status update (line 146), where a conflict only clears the error that is returned.
  \<open>reflect.DeepEqual\<close> on the two status structs is equality of the records.
\<close>

definition manageError :: "env \<Rightarrow> grafana \<Rightarrow> go_error \<Rightarrow> namespaced_name \<Rightarrow> outcome" where
  "manageError env cr issue request =
    (let recorded = [RecorderEvent cr ''Warning'' ''ProcessingError'' (err_Error issue)];
         cr = setFailing cr issue;
         fetched = recorded @ [ClientGet request]
     in case Get_manageError env of
          Inl err \<Rightarrow> \<lparr>Result = emptyResult, Err = Some err, Trace = fetched\<rparr>
        | Inr current \<Rightarrow>
            if Status cr \<noteq> Status current then
              (case Update_manageError env of
                 Some err \<Rightarrow>
                   \<lparr>Result = emptyResult,
                    Err = (if IsConflict err then None else Some err),
                    Trace = fetched @ [StatusUpdate cr]\<rparr>
               | None \<Rightarrow>
                   \<lparr>Result = requeueResult env, Err = None,
                    Trace = fetched @ [StatusUpdate cr, InvalidateDashboards, Publish notReady]\<rparr>)
            else
              \<lparr>Result = requeueResult env, Err = None,
               Trace = fetched @ [InvalidateDashboards, Publish notReady]\<rparr>)"

subsection \<open>manageSuccess\<close>

text \<open>The calls of a callee come after the calls already made by its caller.\<close>

definition preceded :: "call list \<Rightarrow> outcome \<Rightarrow> outcome" where
  "preceded sofar out = out\<lparr>Trace := sofar @ Trace out\<rparr>"

text \<open>
  Lines 200 to 211, what happens to the working copy: phase and message are set, and
  \<open>InstalledDashboards\<close> is assigned in the one branch where the flag is set.
\<close>

definition setSuccess :: "env \<Rightarrow> grafana \<Rightarrow> grafana" where
  "setSuccess env cr =
    (let cr = cr\<lparr>Status := (Status cr)\<lparr>Phase := PhaseReconciling, Message := ''success''\<rparr>\<rparr>
     in if DashboardsSynced env
        then cr\<lparr>Status := (Status cr)\<lparr>InstalledDashboards := Config_Dashboards env\<rparr>\<rparr>
        else cr)"

text \<open>
  Lines 205 to 211, the calls on the configuration: the flag is read with default
  \<open>false\<close>, and in the other branch \<open>SetDashboards\<close> is called with the empty slice
  when \<open>r.Config.Dashboards == nil\<close>.
\<close>

definition syncDashboards :: "env \<Rightarrow> call list" where
  "syncDashboards env =
    GetConfigBool ConfigGrafanaDashboardsSynced False #
      (if DashboardsSynced env then []
       else if Config_Dashboards env = None then [SetDashboards []] else [])"

definition DefaultClientTimeoutSeconds :: int where
  "DefaultClientTimeoutSeconds = 5"

text \<open>Lines 232 to 246, the event of the success path.\<close>

definition readyState :: "grafana \<Rightarrow> string \<Rightarrow> controller_state" where
  "readyState cr url =
    (let controllerState =
           \<lparr>cs_DashboardSelectors = DashboardLabelSelector (Spec cr),
            cs_DashboardNamespaceSelector = DashboardNamespaceSelector (Spec cr),
            AdminUrl = url,
            GrafanaReady = True,
            ClientTimeout = DefaultClientTimeoutSeconds\<rparr>
     in case Client (Spec cr) of
          Some c \<Rightarrow>
            (case TimeoutSeconds c of
               Some seconds \<Rightarrow>
                 controllerState\<lparr>ClientTimeout :=
                   (if seconds < 0 then DefaultClientTimeoutSeconds else seconds)\<rparr>
             | None \<Rightarrow> controllerState)
        | None \<Rightarrow> controllerState)"

text \<open>Lines 225 to 252: resolve the URL, publish, ask for the requeue.\<close>

definition publishReady :: "env \<Rightarrow> grafana \<Rightarrow> cluster_state \<Rightarrow> namespaced_name \<Rightarrow> call list \<Rightarrow> outcome" where
  "publishReady env cr state request sofar =
    (case getGrafanaAdminUrl env cr state of
       Inl err \<Rightarrow> preceded sofar (manageError env cr err request)
     | Inr url \<Rightarrow>
         \<lparr>Result = requeueResult env, Err = None,
          Trace = sofar @ [Publish (readyState cr url)]\<rparr>)"

definition manageSuccess :: "env \<Rightarrow> grafana \<Rightarrow> cluster_state \<Rightarrow> namespaced_name \<Rightarrow> outcome" where
  "manageSuccess env cr state request =
    (let fetched = syncDashboards env @ [ClientGet request];
         cr = setSuccess env cr
     in case Get_manageSuccess env of
          Inl err \<Rightarrow> preceded fetched (manageError env cr err request)
        | Inr current \<Rightarrow>
            if Status cr \<noteq> Status current then
              (case Update_manageSuccess env of
                 Some err \<Rightarrow>
                   preceded (fetched @ [StatusUpdate cr]) (manageError env cr err request)
               | None \<Rightarrow> publishReady env cr state request (fetched @ [StatusUpdate cr]))
            else publishReady env cr state request fetched)"

subsection \<open>Reconcile\<close>

text \<open>
  \<open>instance.DeepCopy()\<close> is the fetched object itself: values are not shared in HOL.
\<close>

definition Reconcile :: "env \<Rightarrow> namespaced_name \<Rightarrow> outcome" where
  "Reconcile env request =
    (let fetched = [ClientGet request]
     in case Get_Reconcile env of
          Inl err \<Rightarrow>
            if IsNotFound err then
              \<lparr>Result = emptyResult, Err = None,
               Trace = fetched @ [RemoveConfigItem ConfigDashboardLabelSelector, Cleanup True,
                                  Publish notReady]\<rparr>
            else \<lparr>Result = emptyResult, Err = Some err, Trace = fetched\<rparr>
        | Inr cr \<Rightarrow>
            (let readState = fetched @ [StateRead cr]
             in case Read_currentState env of
                  Inl err \<Rightarrow> preceded readState (manageError env cr err request)
                | Inr currentState \<Rightarrow>
                    (let desiredState = reconciler_Reconcile env currentState cr;
                         ran = readState @ [RunAll desiredState]
                     in case RunAll_err env of
                          Some err \<Rightarrow> preceded ran (manageError env cr err request)
                        | None \<Rightarrow>
                            (let discovered = ran @ [ReconcileConfigMaps cr]
                             in case reconcileConfigMaps_err env of
                                  Some err \<Rightarrow>
                                    preceded discovered (manageError env cr err request)
                                | None \<Rightarrow>
                                    preceded discovered
                                      (manageSuccess env cr currentState request)))))"

subsection \<open>Reading a trace\<close>

text \<open>The readiness events sent, and the objects handed to the status update, in order.\<close>

fun published :: "call list \<Rightarrow> controller_state list" where
  "published [] = []"
| "published (Publish ev # calls) = ev # published calls"
| "published (_ # calls) = published calls"

fun statusWrites :: "call list \<Rightarrow> grafana list" where
  "statusWrites [] = []"
| "statusWrites (StatusUpdate obj # calls) = obj # statusWrites calls"
| "statusWrites (_ # calls) = statusWrites calls"

subsection \<open>A sample run\<close>

text \<open>
  A resource \<open>g\<close> in namespace \<open>ns\<close> whose snapshot holds only a service, with
  collaborators that all succeed. The sample runs below change one answer at a time.
\<close>

definition sampleCr :: grafana where
  "sampleCr =
    \<lparr>Namespace = ''ns'', Name = ''g'',
     Spec = \<lparr>Ingress = None, Client = None, DashboardLabelSelector = [],
             DashboardNamespaceSelector = None\<rparr>,
     Status = \<lparr>Phase = NoPhase, Message = [], InstalledDashboards = None\<rparr>\<rparr>"

definition sampleState :: cluster_state where
  "sampleState =
    \<lparr>GrafanaRoute = None, GrafanaIngress = None, GrafanaService = Some \<lparr>svc_Name = ''g''\<rparr>\<rparr>"

definition sampleEnv :: env where
  "sampleEnv =
    \<lparr>RequeueDelay = 10,
     GetPreferServiceValue = (\<lambda>cr. False),
     GetGrafanaPort = (\<lambda>cr. 3000),
     reconciler_Reconcile = (\<lambda>state cr. []),
     Get_Reconcile = Inr sampleCr,
     Read_currentState = Inr sampleState,
     RunAll_err = None,
     reconcileConfigMaps_err = None,
     DashboardsSynced = False,
     Config_Dashboards = None,
     Get_manageSuccess = Inr sampleCr,
     Update_manageSuccess = None,
     Get_manageError = Inr sampleCr,
     Update_manageError = None\<rparr>"

text \<open>
  Snapshots with a route and an ingress, with the ingress alone, and with an ingress that
  reports no load-balancer entry; resources whose spec names an ingress hostname, and an
  empty one.
\<close>

definition routedState :: cluster_state where
  "routedState =
    \<lparr>GrafanaRoute = Some \<lparr>Host = ''grafana.apps.example.com''\<rparr>,
     GrafanaIngress = Some \<lparr>LoadBalancerIngress = [\<lparr>lb_Hostname = ''lb.example.com'', lb_IP = ''10.0.0.5''\<rparr>]\<rparr>,
     GrafanaService = Some \<lparr>svc_Name = ''g''\<rparr>\<rparr>"

definition ingressState :: cluster_state where
  "ingressState = routedState\<lparr>GrafanaRoute := None\<rparr>"

definition bareIngressState :: cluster_state where
  "bareIngressState = ingressState\<lparr>GrafanaIngress := Some \<lparr>LoadBalancerIngress = []\<rparr>\<rparr>"

definition hostCr :: grafana where
  "hostCr = sampleCr\<lparr>Spec := (Spec sampleCr)\<lparr>Ingress := Some \<lparr>Hostname = ''grafana.example.com''\<rparr>\<rparr>\<rparr>"

definition emptyHostCr :: grafana where
  "emptyHostCr = sampleCr\<lparr>Spec := (Spec sampleCr)\<lparr>Ingress := Some \<lparr>Hostname = []\<rparr>\<rparr>\<rparr>"

text \<open>The object is gone: the first fetch answers NotFound.\<close>

definition notFoundEnv :: env where
  "notFoundEnv = sampleEnv\<lparr>Get_Reconcile := Inl (GoError NotFound ''grafana g not found'')\<rparr>"

text \<open>
  The resource with a \<open>Client\<close> section in its spec, with or without a timeout, and a
  run that reconciles it.
\<close>

definition timeoutCr :: "int option \<Rightarrow> grafana" where
  "timeoutCr seconds =
     sampleCr\<lparr>Spec := (Spec sampleCr)\<lparr>Client := Some \<lparr>TimeoutSeconds = seconds\<rparr>\<rparr>\<rparr>"

definition timeoutEnv :: "int option \<Rightarrow> env" where
  "timeoutEnv seconds = sampleEnv\<lparr>Get_Reconcile := Inr (timeoutCr seconds)\<rparr>"

text \<open>The snapshot cannot be read.\<close>

definition readFailsEnv :: env where
  "readFailsEnv = sampleEnv\<lparr>Read_currentState := Inl (GoError Generic ''boom'')\<rparr>"

text \<open>The stored status is already the one the cycle computes.\<close>

definition settledEnv :: env where
  "settledEnv =
     sampleEnv\<lparr>Get_manageSuccess :=
       Inr (sampleCr\<lparr>Status := \<lparr>Phase = PhaseReconciling, Message = ''success'',
                                InstalledDashboards = None\<rparr>\<rparr>)\<rparr>"

definition settledFailingEnv :: env where
  "settledFailingEnv =
     readFailsEnv\<lparr>Get_manageError :=
       Inr (sampleCr\<lparr>Status := \<lparr>Phase = PhaseFailing, Message = ''boom'',
                                InstalledDashboards = None\<rparr>\<rparr>)\<rparr>"

text \<open>
  The resource as it stands after an operator restart: its stored status still lists a
  dashboard, while the configuration has no list yet and the flag is unset.
\<close>

definition dashboardCr :: grafana where
  "dashboardCr =
     sampleCr\<lparr>Status := (Status sampleCr)\<lparr>InstalledDashboards :=
       Some [GrafanaDashboardRef ''dash'' ''abc'']\<rparr>\<rparr>"

text \<open>
  Runs that enter the error path through a failed snapshot read: the error path's own
  fetch fails; its status update meets a conflict; its status update fails otherwise.
\<close>

definition refetchFailsEnv :: env where
  "refetchFailsEnv = readFailsEnv\<lparr>Get_manageError := Inl (GoError Generic ''connection refused'')\<rparr>"

definition conflictEnv :: env where
  "conflictEnv =
     readFailsEnv\<lparr>Update_manageError := Some (GoError Conflict ''the object has been modified'')\<rparr>"

definition writeFailsEnv :: env where
  "writeFailsEnv = readFailsEnv\<lparr>Update_manageError := Some (GoError Generic ''etcd unavailable'')\<rparr>"

text \<open>The first fetch fails, and not with NotFound.\<close>

definition fetchFailsEnv :: env where
  "fetchFailsEnv = sampleEnv\<lparr>Get_Reconcile := Inl (GoError Generic ''connection refused'')\<rparr>"

text \<open>The status update of the success path meets a conflict.\<close>

definition successConflictEnv :: env where
  "successConflictEnv =
     sampleEnv\<lparr>Update_manageSuccess := Some (GoError Conflict ''the object has been modified'')\<rparr>"

text \<open>
  Runs with one recoverable failure each: the actions fail, the discovery fails, the
  snapshot has nothing to build a URL from, the status update of the success path fails.
\<close>

definition runFailsEnv :: env where
  "runFailsEnv = sampleEnv\<lparr>RunAll_err := Some (GoError Generic ''apply failed'')\<rparr>"

definition discoveryFailsEnv :: env where
  "discoveryFailsEnv = sampleEnv\<lparr>reconcileConfigMaps_err := Some (GoError Generic ''list failed'')\<rparr>"

definition noUrlEnv :: env where
  "noUrlEnv = sampleEnv\<lparr>Read_currentState := Inr (sampleState\<lparr>GrafanaService := None\<rparr>)\<rparr>"

definition successWriteFailsEnv :: env where
  "successWriteFailsEnv =
     sampleEnv\<lparr>Update_manageSuccess := Some (GoError Generic ''etcd unavailable'')\<rparr>"

section \<open>Properties\<close>

subsection \<open>Traces and the routes through the three functions\<close>

lemma published_append: "published (xs @ ys) = published xs @ published ys"
  by (induction xs rule: published.induct) simp_all

lemma statusWrites_append: "statusWrites (xs @ ys) = statusWrites xs @ statusWrites ys"
  by (induction xs rule: statusWrites.induct) simp_all

lemma preceded_fields:
  "Result (preceded sofar out) = Result out"
  "Err (preceded sofar out) = Err out"
  "Trace (preceded sofar out) = sofar @ Trace out"
  by (simp_all add: preceded_def)

lemma Reconcile_not_found:
  "Get_Reconcile env = Inl err \<Longrightarrow> IsNotFound err \<Longrightarrow>
   Reconcile env request =
     \<lparr>Result = emptyResult, Err = None,
      Trace = [ClientGet request, RemoveConfigItem ConfigDashboardLabelSelector, Cleanup True,
               Publish notReady]\<rparr>"
  by (simp add: Reconcile_def Let_def)

lemma Reconcile_fetch_error:
  "Get_Reconcile env = Inl err \<Longrightarrow> \<not> IsNotFound err \<Longrightarrow>
   Reconcile env request = \<lparr>Result = emptyResult, Err = Some err, Trace = [ClientGet request]\<rparr>"
  by (simp add: Reconcile_def Let_def)

lemma Reconcile_read_error:
  "Get_Reconcile env = Inr cr \<Longrightarrow> Read_currentState env = Inl err \<Longrightarrow>
   Reconcile env request =
     preceded [ClientGet request, StateRead cr] (manageError env cr err request)"
  by (simp add: Reconcile_def Let_def)

lemma Reconcile_run_error:
  "Get_Reconcile env = Inr cr \<Longrightarrow> Read_currentState env = Inr state \<Longrightarrow>
   RunAll_err env = Some err \<Longrightarrow>
   Reconcile env request =
     preceded [ClientGet request, StateRead cr, RunAll (reconciler_Reconcile env state cr)]
       (manageError env cr err request)"
  by (simp add: Reconcile_def Let_def)

lemma Reconcile_discovery_error:
  "Get_Reconcile env = Inr cr \<Longrightarrow> Read_currentState env = Inr state \<Longrightarrow>
   RunAll_err env = None \<Longrightarrow> reconcileConfigMaps_err env = Some err \<Longrightarrow>
   Reconcile env request =
     preceded [ClientGet request, StateRead cr, RunAll (reconciler_Reconcile env state cr),
               ReconcileConfigMaps cr]
       (manageError env cr err request)"
  by (simp add: Reconcile_def Let_def)

lemma Reconcile_applied:
  "Get_Reconcile env = Inr cr \<Longrightarrow> Read_currentState env = Inr state \<Longrightarrow>
   RunAll_err env = None \<Longrightarrow> reconcileConfigMaps_err env = None \<Longrightarrow>
   Reconcile env request =
     preceded [ClientGet request, StateRead cr, RunAll (reconciler_Reconcile env state cr),
               ReconcileConfigMaps cr]
       (manageSuccess env cr state request)"
  by (simp add: Reconcile_def Let_def)

lemma manageSuccess_fetch_error:
  "Get_manageSuccess env = Inl err \<Longrightarrow>
   manageSuccess env cr state request =
     preceded (syncDashboards env @ [ClientGet request])
       (manageError env (setSuccess env cr) err request)"
  by (simp add: manageSuccess_def Let_def)

lemma manageSuccess_write_error:
  "Get_manageSuccess env = Inr current \<Longrightarrow> Status (setSuccess env cr) \<noteq> Status current \<Longrightarrow>
   Update_manageSuccess env = Some err \<Longrightarrow>
   manageSuccess env cr state request =
     preceded (syncDashboards env @ [ClientGet request, StatusUpdate (setSuccess env cr)])
       (manageError env (setSuccess env cr) err request)"
  by (simp add: manageSuccess_def Let_def)

lemma manageSuccess_written:
  "Get_manageSuccess env = Inr current \<Longrightarrow> Status (setSuccess env cr) \<noteq> Status current \<Longrightarrow>
   Update_manageSuccess env = None \<Longrightarrow>
   manageSuccess env cr state request =
     publishReady env (setSuccess env cr) state request
       (syncDashboards env @ [ClientGet request, StatusUpdate (setSuccess env cr)])"
  by (simp add: manageSuccess_def Let_def)

lemma manageSuccess_unchanged:
  "Get_manageSuccess env = Inr current \<Longrightarrow> Status (setSuccess env cr) = Status current \<Longrightarrow>
   manageSuccess env cr state request =
     publishReady env (setSuccess env cr) state request (syncDashboards env @ [ClientGet request])"
  by (simp add: manageSuccess_def Let_def)

lemma published_syncDashboards: "published (syncDashboards env) = []"
  by (simp add: syncDashboards_def)

lemma statusWrites_syncDashboards: "statusWrites (syncDashboards env) = []"
  by (simp add: syncDashboards_def)

lemma published_manageError:
  "published (Trace (manageError env cr issue request)) =
     (case Get_manageError env of
        Inl err \<Rightarrow> []
      | Inr current \<Rightarrow>
          if Status (setFailing cr issue) = Status current \<or> Update_manageError env = None
          then [notReady] else [])"
  by (simp add: manageError_def Let_def published_append split: sum.splits option.splits)

lemma published_manageError_cases:
  "published (Trace (manageError env cr issue request)) = [] \<or>
   published (Trace (manageError env cr issue request)) = [notReady]"
  by (simp add: published_manageError split: sum.splits)

lemma published_publishReady:
  "published (Trace (publishReady env cr state request sofar)) =
     published sofar @
       (case getGrafanaAdminUrl env cr state of
          Inl err \<Rightarrow> published (Trace (manageError env cr err request))
        | Inr url \<Rightarrow> [readyState cr url])"
  by (simp add: publishReady_def preceded_fields published_append split: sum.splits)

lemma published_manageSuccess_cases:
  "published (Trace (manageSuccess env cr state request)) = [] \<or>
   published (Trace (manageSuccess env cr state request)) = [notReady] \<or>
   (\<exists>url. published (Trace (manageSuccess env cr state request)) = [readyState (setSuccess env cr) url])"
proof (cases "Get_manageSuccess env")
  case (Inl err)
  then show ?thesis
    using published_manageError_cases [of env "setSuccess env cr" err request]
    by (auto simp add: manageSuccess_fetch_error preceded_fields published_append
        published_syncDashboards)
next
  case (Inr current)
  show ?thesis
  proof (cases "getGrafanaAdminUrl env (setSuccess env cr) state")
    case url_err: (Inl uerr)
    show ?thesis
      using Inr url_err published_manageError_cases [of env "setSuccess env cr" _ request]
      by (cases "Update_manageSuccess env"; cases "Status (setSuccess env cr) = Status current")
         (auto simp add: manageSuccess_unchanged manageSuccess_written manageSuccess_write_error
           preceded_fields published_append published_syncDashboards published_publishReady)
  next
    case url_ok: (Inr url)
    show ?thesis
      using Inr url_ok published_manageError_cases [of env "setSuccess env cr" _ request]
      by (cases "Update_manageSuccess env"; cases "Status (setSuccess env cr) = Status current")
         (auto simp add: manageSuccess_unchanged manageSuccess_written manageSuccess_write_error
           preceded_fields published_append published_syncDashboards published_publishReady)
  qed
qed

lemma published_Reconcile_cases:
  assumes "Get_Reconcile env = Inr cr"
  shows "published (Trace (Reconcile env request)) = [] \<or>
   published (Trace (Reconcile env request)) = [notReady] \<or>
   (\<exists>url. published (Trace (Reconcile env request)) = [readyState (setSuccess env cr) url])"
proof (cases "Read_currentState env")
  case (Inl err)
  then show ?thesis
    using assms published_manageError_cases [of env cr err request]
    by (auto simp add: Reconcile_read_error preceded_fields published_append)
next
  case (Inr state)
  show ?thesis
  proof (cases "RunAll_err env")
    case (Some err)
    then show ?thesis
      using assms Inr published_manageError_cases [of env cr err request]
      by (auto simp add: Reconcile_run_error preceded_fields published_append)
  next
    case None
    note ran = this
    show ?thesis
    proof (cases "reconcileConfigMaps_err env")
      case (Some err)
      then show ?thesis
        using assms Inr ran published_manageError_cases [of env cr err request]
        by (auto simp add: Reconcile_discovery_error preceded_fields published_append)
    next
      case None
      then show ?thesis
        using assms Inr ran published_manageSuccess_cases [of env cr state request]
        by (auto simp add: Reconcile_applied preceded_fields published_append)
    qed
  qed
qed

lemma published_Reconcile_no_object:
  assumes "Get_Reconcile env = Inl err"
  shows "published (Trace (Reconcile env request)) = (if IsNotFound err then [notReady] else [])"
  using assms by (simp add: Reconcile_def Let_def)

lemma Spec_setSuccess: "Spec (setSuccess env cr) = Spec cr"
  by (simp add: setSuccess_def Let_def)

lemma ClientTimeout_readyState:
  "ClientTimeout (readyState cr url) =
     (case Client (Spec cr) of
        None \<Rightarrow> 5
      | Some c \<Rightarrow> (case TimeoutSeconds c of None \<Rightarrow> 5 | Some seconds \<Rightarrow> if seconds < 0 then 5 else seconds))"
  by (simp add: readyState_def Let_def DefaultClientTimeoutSeconds_def split: option.splits)

lemma GrafanaReady_readyState: "GrafanaReady (readyState cr url)"
  by (simp add: readyState_def Let_def split: option.splits)

lemmas run_defs =
  Reconcile_def manageSuccess_def manageError_def publishReady_def getGrafanaAdminUrl_def
  routeUrl_def ingressUrl_def serviceUrl_def setSuccess_def setFailing_def syncDashboards_def
  readyState_def preceded_def requeueResult_def emptyResult_def notReady_def IsNotFound_def
  IsConflict_def Let_def showInt_def int32_def showNat.simps digit_def
  DefaultClientTimeoutSeconds_def

lemma published_Reconcile_success:
  assumes "Get_Reconcile env = Inr cr"
    and "Read_currentState env = Inr state"
    and "RunAll_err env = None"
    and "reconcileConfigMaps_err env = None"
    and "Get_manageSuccess env = Inr current"
    and "Status (setSuccess env cr) = Status current \<or> Update_manageSuccess env = None"
    and "getGrafanaAdminUrl env (setSuccess env cr) state = Inr url"
  shows "published (Trace (Reconcile env request)) = [readyState (setSuccess env cr) url]"
proof (cases "Status (setSuccess env cr) = Status current")
  case True
  then show ?thesis
    using assms
    by (simp add: Reconcile_applied manageSuccess_unchanged preceded_fields published_append
        published_syncDashboards published_publishReady)
next
  case False
  then have "Update_manageSuccess env = None"
    using assms(6) by simp
  then show ?thesis
    using assms False
    by (simp add: Reconcile_applied manageSuccess_written preceded_fields published_append
        published_syncDashboards published_publishReady)
qed

lemma statusWrites_manageError:
  "statusWrites (Trace (manageError env cr issue request)) =
     (case Get_manageError env of
        Inl err \<Rightarrow> []
      | Inr current \<Rightarrow>
          if Status (setFailing cr issue) = Status current then [] else [setFailing cr issue])"
  by (simp add: manageError_def Let_def statusWrites_append split: sum.splits option.splits)

lemma statusWrites_publishReady:
  "statusWrites (Trace (publishReady env cr state request sofar)) =
     statusWrites sofar @
       (case getGrafanaAdminUrl env cr state of
          Inl err \<Rightarrow> statusWrites (Trace (manageError env cr err request))
        | Inr url \<Rightarrow> [])"
  by (simp add: publishReady_def preceded_fields statusWrites_append split: sum.splits)

lemma InstalledDashboards_setSuccess:
  "InstalledDashboards (Status (setSuccess env cr)) =
     (if DashboardsSynced env then Config_Dashboards env else InstalledDashboards (Status cr))"
  by (simp add: setSuccess_def Let_def)

lemma InstalledDashboards_setFailing:
  "InstalledDashboards (Status (setFailing cr issue)) = InstalledDashboards (Status cr)"
  by (simp add: setFailing_def)

lemma statusWrites_manageError_subset:
  "set (statusWrites (Trace (manageError env cr issue request))) \<subseteq> {setFailing cr issue}"
  by (cases "Get_manageError env") (simp_all add: statusWrites_manageError)

lemma statusWrites_manageSuccess_subset:
  "set (statusWrites (Trace (manageSuccess env cr state request))) \<subseteq>
     {setSuccess env cr} \<union> (\<Union>err. {setFailing (setSuccess env cr) err})"
proof (cases "Get_manageSuccess env")
  case (Inl err)
  then show ?thesis
    using statusWrites_manageError_subset [of env "setSuccess env cr" err request]
    by (auto simp add: manageSuccess_fetch_error preceded_fields statusWrites_append
        statusWrites_syncDashboards)
next
  case (Inr current)
  have url: "set (statusWrites (Trace (publishReady env (setSuccess env cr) state request sofar)))
      \<subseteq> set (statusWrites sofar) \<union> (\<Union>err. {setFailing (setSuccess env cr) err})" for sofar
    using statusWrites_manageError_subset [of env "setSuccess env cr" _ request]
    by (auto simp add: statusWrites_publishReady split: sum.splits)
  show ?thesis
  proof (cases "Status (setSuccess env cr) = Status current")
    case True
    then show ?thesis
      using Inr url [of "syncDashboards env @ [ClientGet request]"]
      by (auto simp add: manageSuccess_unchanged statusWrites_append statusWrites_syncDashboards)
  next
    case False
    show ?thesis
    proof (cases "Update_manageSuccess env")
      case None
      then show ?thesis
        using Inr False
          url [of "syncDashboards env @ [ClientGet request, StatusUpdate (setSuccess env cr)]"]
        by (auto simp add: manageSuccess_written statusWrites_append statusWrites_syncDashboards)
    next
      case (Some err)
      then show ?thesis
        using Inr False statusWrites_manageError_subset [of env "setSuccess env cr" err request]
        by (auto simp add: manageSuccess_write_error preceded_fields statusWrites_append
            statusWrites_syncDashboards)
    qed
  qed
qed

lemma SetDashboards_manageError:
  "SetDashboards ds \<notin> set (Trace (manageError env cr issue request))"
  by (simp add: manageError_def Let_def split: sum.splits option.splits)

lemma SetDashboards_publishReady:
  "SetDashboards ds \<in> set (Trace (publishReady env cr state request sofar)) \<longleftrightarrow>
   SetDashboards ds \<in> set sofar"
  by (simp add: publishReady_def preceded_fields SetDashboards_manageError split: sum.splits)

lemma SetDashboards_syncDashboards:
  "SetDashboards ds \<in> set (syncDashboards env) \<longleftrightarrow>
   ds = [] \<and> \<not> DashboardsSynced env \<and> Config_Dashboards env = None"
  by (auto simp add: syncDashboards_def)

lemma SetDashboards_manageSuccess:
  "SetDashboards ds \<in> set (Trace (manageSuccess env cr state request)) \<longleftrightarrow>
   ds = [] \<and> \<not> DashboardsSynced env \<and> Config_Dashboards env = None"
proof (cases "Get_manageSuccess env")
  case (Inl err)
  then show ?thesis
    by (simp add: manageSuccess_fetch_error preceded_fields SetDashboards_manageError
        SetDashboards_syncDashboards)
next
  case (Inr current)
  then show ?thesis
    by (cases "Status (setSuccess env cr) = Status current"; cases "Update_manageSuccess env")
       (simp_all add: manageSuccess_unchanged manageSuccess_written manageSuccess_write_error
         preceded_fields SetDashboards_manageError SetDashboards_publishReady
         SetDashboards_syncDashboards)
qed

lemma statusWrites_Reconcile_success:
  assumes "Get_Reconcile env = Inr cr"
    and "Read_currentState env = Inr state"
    and "RunAll_err env = None"
    and "reconcileConfigMaps_err env = None"
    and "Get_manageSuccess env = Inr current"
    and "getGrafanaAdminUrl env (setSuccess env cr) state = Inr url"
  shows "statusWrites (Trace (Reconcile env request)) =
     (if Status (setSuccess env cr) = Status current then []
      else case Update_manageSuccess env of
             None \<Rightarrow> [setSuccess env cr]
           | Some err \<Rightarrow>
               setSuccess env cr #
                 statusWrites (Trace (manageError env (setSuccess env cr) err request)))"
proof (cases "Status (setSuccess env cr) = Status current")
  case True
  then show ?thesis
    using assms
    by (simp add: Reconcile_applied manageSuccess_unchanged preceded_fields statusWrites_append
        statusWrites_syncDashboards statusWrites_publishReady)
next
  case False
  then show ?thesis
    using assms
    by (cases "Update_manageSuccess env")
       (simp_all add: Reconcile_applied manageSuccess_written manageSuccess_write_error
         preceded_fields statusWrites_append statusWrites_syncDashboards
         statusWrites_publishReady)
qed

lemma returned_preceded: "returned (preceded sofar out) = returned out"
  by (simp add: returned_def preceded_fields)

lemma returned_manageError:
  "returned (manageError env cr issue request) =
     (case Get_manageError env of
        Inl err \<Rightarrow> (\<lparr>Requeue = False, RequeueAfter = 0\<rparr>, Some err)
      | Inr current \<Rightarrow>
          if Status (setFailing cr issue) = Status current
          then (\<lparr>Requeue = False, RequeueAfter = RequeueDelay env\<rparr>, None)
          else (case Update_manageError env of
                  None \<Rightarrow> (\<lparr>Requeue = False, RequeueAfter = RequeueDelay env\<rparr>, None)
                | Some err \<Rightarrow>
                    (\<lparr>Requeue = False, RequeueAfter = 0\<rparr>,
                     if IsConflict err then None else Some err)))"
  by (simp add: manageError_def Let_def returned_def emptyResult_def requeueResult_def
      split: sum.splits option.splits)

lemma manageSuccess_url_error:
  assumes "Get_manageSuccess env = Inr current"
    and "Status (setSuccess env cr) = Status current \<or> Update_manageSuccess env = None"
    and "getGrafanaAdminUrl env (setSuccess env cr) state = Inl err"
  shows "\<exists>sofar. manageSuccess env cr state request =
           preceded sofar (manageError env (setSuccess env cr) err request) \<and>
           published sofar = []"
proof (cases "Status (setSuccess env cr) = Status current")
  case True
  then have "manageSuccess env cr state request =
      preceded (syncDashboards env @ [ClientGet request])
        (manageError env (setSuccess env cr) err request)"
    using assms by (simp add: manageSuccess_unchanged publishReady_def)
  moreover have "published (syncDashboards env @ [ClientGet request]) = []"
    by (simp add: published_append published_syncDashboards)
  ultimately show ?thesis by blast
next
  case False
  then have "manageSuccess env cr state request =
      preceded (syncDashboards env @ [ClientGet request, StatusUpdate (setSuccess env cr)])
        (manageError env (setSuccess env cr) err request)"
    using assms by (simp add: manageSuccess_written publishReady_def)
  moreover have "published (syncDashboards env @ [ClientGet request,
      StatusUpdate (setSuccess env cr)]) = []"
    by (simp add: published_append published_syncDashboards)
  ultimately show ?thesis by blast
qed

lemma preceded_preceded: "preceded xs (preceded ys out) = preceded (xs @ ys) out"
  by (simp add: preceded_def)

text \<open>
  Past the first fetch, the calls of \<open>manageSuccess\<close> end either with the one ready event
  or with the calls of \<open>manageError\<close>, and nothing is published before.
\<close>

lemma manageSuccess_shape:
  "(\<exists>sofar url. Trace (manageSuccess env cr state request) =
       sofar @ [Publish (readyState (setSuccess env cr) url)] \<and> published sofar = []) \<or>
   (\<exists>sofar issue. Trace (manageSuccess env cr state request) =
       sofar @ Trace (manageError env (setSuccess env cr) issue request) \<and>
       published sofar = [])"
proof (cases "Get_manageSuccess env")
  case (Inl err)
  have "published (syncDashboards env @ [ClientGet request]) = []"
    by (simp add: published_append published_syncDashboards)
  moreover have "Trace (manageSuccess env cr state request) =
      (syncDashboards env @ [ClientGet request]) @
      Trace (manageError env (setSuccess env cr) err request)"
    using Inl by (simp add: manageSuccess_fetch_error preceded_fields)
  ultimately show ?thesis by blast
next
  case (Inr current)
  have quiet: "published (syncDashboards env @ [ClientGet request]) = []"
    "published (syncDashboards env @ [ClientGet request, StatusUpdate (setSuccess env cr)]) = []"
    by (simp_all add: published_append published_syncDashboards)
  show ?thesis
  proof (cases "Status (setSuccess env cr) \<noteq> Status current \<and> Update_manageSuccess env \<noteq> None")
    case True
    then obtain err where "Update_manageSuccess env = Some err" by auto
    then have "Trace (manageSuccess env cr state request) =
        (syncDashboards env @ [ClientGet request, StatusUpdate (setSuccess env cr)]) @
        Trace (manageError env (setSuccess env cr) err request)"
      using Inr True by (simp add: manageSuccess_write_error preceded_fields)
    then show ?thesis using quiet(2) by blast
  next
    case False
    then have gate: "Status (setSuccess env cr) = Status current \<or> Update_manageSuccess env = None"
      by auto
    show ?thesis
    proof (cases "getGrafanaAdminUrl env (setSuccess env cr) state")
      case (Inl err)
      from manageSuccess_url_error [OF Inr gate Inl, of request]
      obtain sofar where run: "manageSuccess env cr state request =
          preceded sofar (manageError env (setSuccess env cr) err request)"
        and none: "published sofar = []"
        by blast
      have "Trace (manageSuccess env cr state request) =
          sofar @ Trace (manageError env (setSuccess env cr) err request)"
        by (simp add: run preceded_fields)
      then show ?thesis using none by blast
    next
      case url: (Inr url)
      show ?thesis
      proof (cases "Status (setSuccess env cr) = Status current")
        case True
        then have "Trace (manageSuccess env cr state request) =
            (syncDashboards env @ [ClientGet request]) @
            [Publish (readyState (setSuccess env cr) url)]"
          using Inr url by (simp add: manageSuccess_unchanged publishReady_def)
        then show ?thesis using quiet(1) by blast
      next
        case False
        then have "Update_manageSuccess env = None" using gate by simp
        then have "Trace (manageSuccess env cr state request) =
            (syncDashboards env @ [ClientGet request, StatusUpdate (setSuccess env cr)]) @
            [Publish (readyState (setSuccess env cr) url)]"
          using Inr url False by (simp add: manageSuccess_written publishReady_def)
        then show ?thesis using quiet(2) by blast
      qed
    qed
  qed
qed

lemma Reconcile_shape:
  assumes "Get_Reconcile env = Inr cr"
  shows "(\<exists>sofar url. Trace (Reconcile env request) =
       sofar @ [Publish (readyState (setSuccess env cr) url)] \<and> published sofar = []) \<or>
   (\<exists>sofar cr' issue. Trace (Reconcile env request) =
       sofar @ Trace (manageError env cr' issue request) \<and> published sofar = [] \<and>
       (cr' = cr \<or> cr' = setSuccess env cr))"
proof (cases "Read_currentState env")
  case (Inl err)
  have "Trace (Reconcile env request) =
      [ClientGet request, StateRead cr] @ Trace (manageError env cr err request)"
    using assms Inl by (simp add: Reconcile_read_error preceded_fields)
  moreover have "published [ClientGet request, StateRead cr] = []" by simp
  ultimately show ?thesis by blast
next
  case (Inr state)
  show ?thesis
  proof (cases "RunAll_err env")
    case (Some err)
    have "Trace (Reconcile env request) =
        [ClientGet request, StateRead cr, RunAll (reconciler_Reconcile env state cr)] @
        Trace (manageError env cr err request)"
      using assms Inr Some by (simp add: Reconcile_run_error preceded_fields)
    moreover have "published [ClientGet request, StateRead cr,
        RunAll (reconciler_Reconcile env state cr)] = []" by simp
    ultimately show ?thesis by blast
  next
    case None
    note ran = this
    let ?pre = "[ClientGet request, StateRead cr, RunAll (reconciler_Reconcile env state cr),
        ReconcileConfigMaps cr]"
    have quiet: "published ?pre = []" by simp
    show ?thesis
    proof (cases "reconcileConfigMaps_err env")
      case (Some err)
      have "Trace (Reconcile env request) = ?pre @ Trace (manageError env cr err request)"
        using assms Inr ran Some by (simp add: Reconcile_discovery_error preceded_fields)
      then show ?thesis using quiet by blast
    next
      case None
      have whole: "Trace (Reconcile env request) =
          ?pre @ Trace (manageSuccess env cr state request)"
        using assms Inr ran None by (simp add: Reconcile_applied preceded_fields)
      from manageSuccess_shape [of env cr state request]
      show ?thesis
      proof (elim disjE exE conjE)
        fix sofar url
        assume "Trace (manageSuccess env cr state request) =
            sofar @ [Publish (readyState (setSuccess env cr) url)]" and "published sofar = []"
        then have "Trace (Reconcile env request) =
            (?pre @ sofar) @ [Publish (readyState (setSuccess env cr) url)]"
          and "published (?pre @ sofar) = []"
          using whole by (simp_all add: published_append)
        then show ?thesis by blast
      next
        fix sofar issue
        assume "Trace (manageSuccess env cr state request) =
            sofar @ Trace (manageError env (setSuccess env cr) issue request)"
          and "published sofar = []"
        then have "Trace (Reconcile env request) =
            (?pre @ sofar) @ Trace (manageError env (setSuccess env cr) issue request)"
          and "published (?pre @ sofar) = []"
          using whole by (simp_all add: published_append)
        then show ?thesis by blast
      qed
    qed
  qed
qed

lemma published_Reconcile_read_error:
  "Get_Reconcile env = Inr cr \<Longrightarrow> Read_currentState env = Inl err \<Longrightarrow>
   published (Trace (Reconcile env request)) =
     published (Trace (manageError env cr err request))"
  by (simp add: Reconcile_read_error preceded_fields published_append)

lemma published_at_most_one:
  "length (published (Trace (Reconcile env request))) \<le> 1"
proof (cases "Get_Reconcile env")
  case (Inl err)
  then show ?thesis by (simp add: published_Reconcile_no_object)
next
  case (Inr cr)
  from published_Reconcile_cases [OF Inr, of request] show ?thesis by auto
qed

lemma returned_Reconcile_read_error:
  "Get_Reconcile env = Inr cr \<Longrightarrow> Read_currentState env = Inl err \<Longrightarrow>
   returned (Reconcile env request) = returned (manageError env cr err request)"
  by (simp add: Reconcile_read_error returned_preceded)

section \<open>The claims\<close>

text \<open>
  C5. With the service preference unset, a snapshot that holds a route and an ingress
  resolves to \<open>https://\<close> followed by the route's host; a snapshot that holds an
  ingress and no route, for a resource whose spec names a non-empty ingress hostname,
  resolves to \<open>https://\<close> followed by that hostname, whatever the load balancer
  of the ingress reports.
\<close>

theorem admin_url_priority:
  assumes "\<not> GetPreferServiceValue env cr"
  shows "(\<forall>rt ing. GrafanaRoute state = Some rt \<and> GrafanaIngress state = Some ing \<longrightarrow>
            getGrafanaAdminUrl env cr state = Inr (''https://'' @ Host rt)) \<and>
         (\<forall>ing si. GrafanaRoute state = None \<and> GrafanaIngress state = Some ing \<and>
            Ingress (Spec cr) = Some si \<and> Hostname si \<noteq> [] \<longrightarrow>
            getGrafanaAdminUrl env cr state = Inr (''https://'' @ Hostname si))"
  using assms by (simp add: getGrafanaAdminUrl_def routeUrl_def ingressUrl_def)

theorem admin_url_priority_witness:
  "\<not> GetPreferServiceValue sampleEnv sampleCr \<and>
   GrafanaRoute routedState = Some \<lparr>Host = ''grafana.apps.example.com''\<rparr> \<and>
   GrafanaIngress routedState \<noteq> None \<and>
   getGrafanaAdminUrl sampleEnv sampleCr routedState = Inr ''https://grafana.apps.example.com'' \<and>
   \<not> GetPreferServiceValue sampleEnv hostCr \<and>
   GrafanaRoute ingressState = None \<and>
   LoadBalancerIngress (the (GrafanaIngress ingressState)) =
     [\<lparr>lb_Hostname = ''lb.example.com'', lb_IP = ''10.0.0.5''\<rparr>] \<and>
   getGrafanaAdminUrl sampleEnv hostCr ingressState = Inr ''https://grafana.example.com''"
proof -
  have flag: "\<not> GetPreferServiceValue sampleEnv sampleCr" "\<not> GetPreferServiceValue sampleEnv hostCr"
    by (simp_all add: sampleEnv_def)
  have routed: "GrafanaRoute routedState = Some \<lparr>Host = ''grafana.apps.example.com''\<rparr>"
    "GrafanaIngress routedState =
       Some \<lparr>LoadBalancerIngress = [\<lparr>lb_Hostname = ''lb.example.com'', lb_IP = ''10.0.0.5''\<rparr>]\<rparr>"
    by (simp_all add: routedState_def)
  have ingress: "GrafanaRoute ingressState = None"
    "GrafanaIngress ingressState =
       Some \<lparr>LoadBalancerIngress = [\<lparr>lb_Hostname = ''lb.example.com'', lb_IP = ''10.0.0.5''\<rparr>]\<rparr>"
    by (simp_all add: ingressState_def routedState_def)
  have host: "Ingress (Spec hostCr) = Some \<lparr>Hostname = ''grafana.example.com''\<rparr>"
    by (simp add: hostCr_def)
  have "getGrafanaAdminUrl sampleEnv sampleCr routedState = Inr ''https://grafana.apps.example.com''"
    using admin_url_priority [OF flag(1), of routedState] routed by simp
  moreover have "getGrafanaAdminUrl sampleEnv hostCr ingressState = Inr ''https://grafana.example.com''"
    using admin_url_priority [OF flag(2), of ingressState] ingress host by simp
  ultimately show ?thesis using flag routed ingress by simp
qed

text \<open>
  C10. With the service preference unset, no route, an ingress that reports no
  load-balancer entry and no hostname in the spec (no \<open>Spec.Ingress\<close>, or an empty
  \<open>Hostname\<close>), the ingress block returns nothing and the function goes on to the
  service: the in-cluster URL of the service when the snapshot has one, and the error
  \<open>failed to find admin url\<close> only when it has none.
\<close>

theorem ingress_without_endpoint_falls_through:
  assumes "\<not> GetPreferServiceValue env cr"
    and "GrafanaRoute state = None"
    and "GrafanaIngress state = Some ing"
    and "case Ingress (Spec cr) of Some si \<Rightarrow> Hostname si = [] | None \<Rightarrow> True"
    and "LoadBalancerIngress ing = []"
  shows "getGrafanaAdminUrl env cr state =
     (case GrafanaService state of
        Some svc \<Rightarrow>
          Inr (''http://'' @ svc_Name svc @ ''.'' @ Namespace cr @ ''.svc.cluster.local:'' @
               showInt (int32 (GetGrafanaPort env cr)))
      | None \<Rightarrow> Inl (GoError Generic ''failed to find admin url''))"
  using assms
  by (simp add: getGrafanaAdminUrl_def routeUrl_def ingressUrl_def serviceUrl_def
      split: option.splits)

theorem ingress_without_endpoint_falls_through_witness:
  "getGrafanaAdminUrl sampleEnv sampleCr bareIngressState = Inr ''http://g.ns.svc.cluster.local:3000'' \<and>
   getGrafanaAdminUrl sampleEnv emptyHostCr bareIngressState =
     Inr ''http://g.ns.svc.cluster.local:3000'' \<and>
   getGrafanaAdminUrl sampleEnv sampleCr (bareIngressState\<lparr>GrafanaService := None\<rparr>) =
     Inl (GoError Generic ''failed to find admin url'')"
proof -
  have flag: "\<not> GetPreferServiceValue sampleEnv cr" for cr
    by (simp add: sampleEnv_def)
  have noHost: "case Ingress (Spec sampleCr) of Some si \<Rightarrow> Hostname si = [] | None \<Rightarrow> True"
    "case Ingress (Spec emptyHostCr) of Some si \<Rightarrow> Hostname si = [] | None \<Rightarrow> True"
    by (simp_all add: emptyHostCr_def sampleCr_def)
  have bare: "GrafanaRoute bareIngressState = None"
    "GrafanaIngress bareIngressState = Some \<lparr>LoadBalancerIngress = []\<rparr>"
    "GrafanaService bareIngressState = Some \<lparr>svc_Name = ''g''\<rparr>"
    by (simp_all add: bareIngressState_def ingressState_def routedState_def)
  have port: "showInt (int32 (GetGrafanaPort sampleEnv cr)) = ''3000''" for cr
    by (simp add: sampleEnv_def showInt_def int32_def showNat.simps digit_def)
  have ns: "Namespace sampleCr = ''ns''" "Namespace emptyHostCr = ''ns''"
    by (simp_all add: emptyHostCr_def sampleCr_def)
  have "getGrafanaAdminUrl sampleEnv sampleCr bareIngressState = Inr ''http://g.ns.svc.cluster.local:3000''"
    using ingress_without_endpoint_falls_through [OF flag bare(1) bare(2) noHost(1)] bare(3) port ns
    by simp
  moreover have "getGrafanaAdminUrl sampleEnv emptyHostCr bareIngressState =
      Inr ''http://g.ns.svc.cluster.local:3000''"
    using ingress_without_endpoint_falls_through [OF flag bare(1) bare(2) noHost(2)] bare(3) port ns
    by simp
  moreover have "getGrafanaAdminUrl sampleEnv sampleCr (bareIngressState\<lparr>GrafanaService := None\<rparr>) =
     Inl (GoError Generic ''failed to find admin url'')"
    using ingress_without_endpoint_falls_through
      [OF flag, of "bareIngressState\<lparr>GrafanaService := None\<rparr>" "\<lparr>LoadBalancerIngress = []\<rparr>"
        sampleCr]
      bare noHost
    by simp
  ultimately show ?thesis by simp
qed

text \<open>
  C6. When the first fetch answers NotFound, the invocation fetches, removes the
  configuration key \<open>ConfigDashboardLabelSelector\<close>, calls \<open>Cleanup(true)\<close>, sends one
  readiness event, which has \<open>GrafanaReady = false\<close>, and does nothing else; it returns
  \<open>reconcile.Result{}\<close> (no requeue) and a nil error.
\<close>

theorem not_found_cleanup:
  assumes "Get_Reconcile env = Inl err" and "IsNotFound err"
  shows "Trace (Reconcile env request) =
           [ClientGet request, RemoveConfigItem ConfigDashboardLabelSelector, Cleanup True,
            Publish notReady] \<and>
         published (Trace (Reconcile env request)) = [notReady] \<and>
         \<not> GrafanaReady notReady \<and>
         Err (Reconcile env request) = None \<and>
         Result (Reconcile env request) = \<lparr>Requeue = False, RequeueAfter = 0\<rparr>"
  using assms by (simp add: Reconcile_not_found emptyResult_def notReady_def)

theorem not_found_cleanup_witness:
  "IsNotFound (GoError NotFound ''grafana g not found'') \<and>
   Trace (Reconcile notFoundEnv (''ns'', ''g'')) =
     [ClientGet (''ns'', ''g''), RemoveConfigItem ConfigDashboardLabelSelector, Cleanup True,
      Publish notReady] \<and>
   Err (Reconcile notFoundEnv (''ns'', ''g'')) = None \<and>
   Result (Reconcile notFoundEnv (''ns'', ''g'')) = \<lparr>Requeue = False, RequeueAfter = 0\<rparr>"
proof -
  have fetch: "Get_Reconcile notFoundEnv = Inl (GoError NotFound ''grafana g not found'')"
    by (simp add: notFoundEnv_def sampleEnv_def)
  have gone: "IsNotFound (GoError NotFound ''grafana g not found'')"
    by (simp add: IsNotFound_def)
  show ?thesis
    using not_found_cleanup [OF fetch gone, of "(''ns'', ''g'')"] gone by simp
qed

text \<open>
  C7. Every event with \<open>GrafanaReady = true\<close> that an invocation sends carries the
  client timeout of the fetched resource's spec, resolved as: 5 when the spec has no
  \<open>Client\<close> or no \<open>TimeoutSeconds\<close>, 5 when \<open>TimeoutSeconds\<close> is negative, and
  \<open>TimeoutSeconds\<close> itself otherwise. On the success path (snapshot read, actions run,
  discovery done, status fetched and written where it differs, URL resolved) exactly one
  event is sent and it is such an event.
\<close>

theorem client_timeout_defaulting:
  assumes "Get_Reconcile env = Inr cr"
  shows "(\<forall>ev \<in> set (published (Trace (Reconcile env request))).
            GrafanaReady ev \<longrightarrow>
            ClientTimeout ev =
              (case Client (Spec cr) of
                 None \<Rightarrow> 5
               | Some c \<Rightarrow>
                   (case TimeoutSeconds c of
                      None \<Rightarrow> 5
                    | Some seconds \<Rightarrow> if seconds < 0 then 5 else seconds))) \<and>
         (\<forall>state current url.
            Read_currentState env = Inr state \<and> RunAll_err env = None \<and>
            reconcileConfigMaps_err env = None \<and> Get_manageSuccess env = Inr current \<and>
            (Status (setSuccess env cr) = Status current \<or> Update_manageSuccess env = None) \<and>
            getGrafanaAdminUrl env (setSuccess env cr) state = Inr url \<longrightarrow>
            (\<exists>ev. published (Trace (Reconcile env request)) = [ev] \<and> GrafanaReady ev \<and>
                  AdminUrl ev = url))"
proof (intro conjI ballI impI allI)
  fix ev
  assume ev: "ev \<in> set (published (Trace (Reconcile env request)))" and ready: "GrafanaReady ev"
  from published_Reconcile_cases [OF assms, of request] ev ready
  obtain url where "ev = readyState (setSuccess env cr) url"
    by (auto simp add: notReady_def)
  then show "ClientTimeout ev =
      (case Client (Spec cr) of
         None \<Rightarrow> 5
       | Some c \<Rightarrow>
           (case TimeoutSeconds c of
              None \<Rightarrow> 5
            | Some seconds \<Rightarrow> if seconds < 0 then 5 else seconds))"
    by (simp add: ClientTimeout_readyState Spec_setSuccess)
next
  fix state current url
  assume run: "Read_currentState env = Inr state \<and> RunAll_err env = None \<and>
            reconcileConfigMaps_err env = None \<and> Get_manageSuccess env = Inr current \<and>
            (Status (setSuccess env cr) = Status current \<or> Update_manageSuccess env = None) \<and>
            getGrafanaAdminUrl env (setSuccess env cr) state = Inr url"
  then have "published (Trace (Reconcile env request)) = [readyState (setSuccess env cr) url]"
    using published_Reconcile_success [OF assms, of state current url request] by blast
  moreover have "AdminUrl (readyState (setSuccess env cr) url) = url"
    by (simp add: readyState_def Let_def split: option.splits)
  ultimately show "\<exists>ev. published (Trace (Reconcile env request)) = [ev] \<and> GrafanaReady ev \<and>
                  AdminUrl ev = url"
    using GrafanaReady_readyState by blast
qed

theorem client_timeout_defaulting_witness:
  "map ClientTimeout (published (Trace (Reconcile (timeoutEnv (Some (- 1))) (''ns'', ''g'')))) = [5] \<and>
   map ClientTimeout (published (Trace (Reconcile (timeoutEnv (Some 30)) (''ns'', ''g'')))) = [30] \<and>
   map ClientTimeout (published (Trace (Reconcile (timeoutEnv None) (''ns'', ''g'')))) = [5] \<and>
   map ClientTimeout (published (Trace (Reconcile sampleEnv (''ns'', ''g'')))) = [5] \<and>
   map GrafanaReady (published (Trace (Reconcile (timeoutEnv (Some (- 1))) (''ns'', ''g'')))) = [True] \<and>
   map GrafanaReady (published (Trace (Reconcile (timeoutEnv (Some 30)) (''ns'', ''g'')))) = [True] \<and>
   map GrafanaReady (published (Trace (Reconcile (timeoutEnv None) (''ns'', ''g'')))) = [True] \<and>
   map GrafanaReady (published (Trace (Reconcile sampleEnv (''ns'', ''g'')))) = [True]"
proof -
  have fetch: "Get_Reconcile (timeoutEnv seconds) = Inr (timeoutCr seconds)"
    "Get_Reconcile sampleEnv = Inr sampleCr" for seconds
    by (simp_all add: timeoutEnv_def sampleEnv_def)
  have spec: "Client (Spec (timeoutCr seconds)) = Some \<lparr>TimeoutSeconds = seconds\<rparr>"
    "Client (Spec sampleCr) = None" for seconds
    by (simp_all add: timeoutCr_def sampleCr_def)
  have ready: "\<exists>ev. published (Trace (Reconcile (timeoutEnv seconds) (''ns'', ''g''))) = [ev] \<and>
      GrafanaReady ev" for seconds
    by (cases seconds)
       (simp_all add: run_defs timeoutEnv_def timeoutCr_def sampleEnv_def sampleCr_def
         sampleState_def)
  obtain a where a: "published (Trace (Reconcile (timeoutEnv (Some (- 1))) (''ns'', ''g''))) = [a]"
    "GrafanaReady a"
    using ready by blast
  obtain b where b: "published (Trace (Reconcile (timeoutEnv (Some 30)) (''ns'', ''g''))) = [b]"
    "GrafanaReady b"
    using ready by blast
  obtain c where c: "published (Trace (Reconcile (timeoutEnv None) (''ns'', ''g''))) = [c]"
    "GrafanaReady c"
    using ready by blast
  obtain d where d: "published (Trace (Reconcile sampleEnv (''ns'', ''g''))) = [d]"
    "GrafanaReady d"
    by (simp add: run_defs sampleEnv_def sampleCr_def sampleState_def)
  have "ClientTimeout a = 5"
    using client_timeout_defaulting [OF fetch(1), of "Some (- 1)" "(''ns'', ''g'')"] a spec(1)
    by simp
  moreover have "ClientTimeout b = 30"
    using client_timeout_defaulting [OF fetch(1), of "Some 30" "(''ns'', ''g'')"] b spec(1)
    by simp
  moreover have "ClientTimeout c = 5"
    using client_timeout_defaulting [OF fetch(1), of None "(''ns'', ''g'')"] c spec(1)
    by simp
  moreover have "ClientTimeout d = 5"
    using client_timeout_defaulting [OF fetch(2), of "(''ns'', ''g'')"] d spec(2)
    by simp
  ultimately show ?thesis
    using a b c d by simp
qed

text \<open>
  C4, as the code has it. The claim's first half holds: with the flag set, the status
  field \<open>InstalledDashboards\<close> of the working copy is the configuration's dashboard
  list. Its second half does not: with the flag unset the status field is left as the
  fetched resource has it, and what is set to the empty list, when the configuration has
  no list yet, is the configuration's own list (\<open>SetDashboards\<close>). Every object
  that \<open>manageSuccess\<close> hands to a status update has the field so.
\<close>

theorem installed_dashboards_status:
  "InstalledDashboards (Status (setSuccess env cr)) =
     (if DashboardsSynced env then Config_Dashboards env else InstalledDashboards (Status cr)) \<and>
   (\<forall>obj \<in> set (statusWrites (Trace (manageSuccess env cr state request))).
      InstalledDashboards (Status obj) =
        (if DashboardsSynced env then Config_Dashboards env
         else InstalledDashboards (Status cr))) \<and>
   (SetDashboards [] \<in> set (Trace (manageSuccess env cr state request)) \<longleftrightarrow>
      \<not> DashboardsSynced env \<and> Config_Dashboards env = None)"
proof (intro conjI ballI)
  show "InstalledDashboards (Status (setSuccess env cr)) =
     (if DashboardsSynced env then Config_Dashboards env else InstalledDashboards (Status cr))"
    by (rule InstalledDashboards_setSuccess)
next
  fix obj
  assume "obj \<in> set (statusWrites (Trace (manageSuccess env cr state request)))"
  then have "obj = setSuccess env cr \<or> (\<exists>err. obj = setFailing (setSuccess env cr) err)"
    using statusWrites_manageSuccess_subset [of env cr state request] by auto
  then show "InstalledDashboards (Status obj) =
        (if DashboardsSynced env then Config_Dashboards env
         else InstalledDashboards (Status cr))"
    by (auto simp add: InstalledDashboards_setSuccess InstalledDashboards_setFailing)
next
  show "SetDashboards [] \<in> set (Trace (manageSuccess env cr state request)) \<longleftrightarrow>
      \<not> DashboardsSynced env \<and> Config_Dashboards env = None"
    by (simp add: SetDashboards_manageSuccess)
qed

theorem installed_dashboards_status_witness:
  "statusWrites (Trace (manageSuccess sampleEnv dashboardCr sampleState (''ns'', ''g''))) =
     [setSuccess sampleEnv dashboardCr] \<and>
   InstalledDashboards (Status (setSuccess sampleEnv dashboardCr)) =
     Some [GrafanaDashboardRef ''dash'' ''abc''] \<and>
   SetDashboards [] \<in> set (Trace (manageSuccess sampleEnv dashboardCr sampleState (''ns'', ''g''))) \<and>
   InstalledDashboards (Status (setSuccess (sampleEnv\<lparr>DashboardsSynced := True,
      Config_Dashboards := Some [GrafanaDashboardRef ''other'' ''def'']\<rparr>) dashboardCr)) =
     Some [GrafanaDashboardRef ''other'' ''def'']"
proof -
  have flag: "\<not> DashboardsSynced sampleEnv" "Config_Dashboards sampleEnv = None"
    by (simp_all add: sampleEnv_def)
  have stored: "InstalledDashboards (Status dashboardCr) = Some [GrafanaDashboardRef ''dash'' ''abc'']"
    by (simp add: dashboardCr_def sampleCr_def)
  have written: "statusWrites (Trace (manageSuccess sampleEnv dashboardCr sampleState (''ns'', ''g''))) =
     [setSuccess sampleEnv dashboardCr]"
    by (simp add: run_defs sampleEnv_def sampleCr_def sampleState_def dashboardCr_def)
  show ?thesis
    using installed_dashboards_status [of sampleEnv dashboardCr sampleState "(''ns'', ''g'')"]
      installed_dashboards_status [of "sampleEnv\<lparr>DashboardsSynced := True,
        Config_Dashboards := Some [GrafanaDashboardRef ''other'' ''def'']\<rparr>" dashboardCr
        sampleState "(''ns'', ''g'')"]
      flag stored written
    by simp
qed

text \<open>
  C4 as the claim has it fails at the resource whose stored status lists one dashboard,
  with the flag unset and no list in the configuration: the status field keeps the one
  dashboard and is not the empty list, also in the object handed to the status update.
  A resource whose status has no list keeps the nil slice.
\<close>

theorem installed_dashboards_counterexample:
  "\<not> DashboardsSynced sampleEnv \<and> Config_Dashboards sampleEnv = None \<and>
   InstalledDashboards (Status (setSuccess sampleEnv dashboardCr)) =
     Some [GrafanaDashboardRef ''dash'' ''abc''] \<and>
   InstalledDashboards (Status (setSuccess sampleEnv dashboardCr)) \<noteq> Some [] \<and>
   statusWrites (Trace (manageSuccess sampleEnv dashboardCr sampleState (''ns'', ''g''))) =
     [setSuccess sampleEnv dashboardCr] \<and>
   InstalledDashboards (Status (setSuccess sampleEnv sampleCr)) = None"
  by (simp add: run_defs sampleEnv_def sampleCr_def sampleState_def dashboardCr_def)

text \<open>
  C9. The event of the not-found path and every event of the error path
  (\<open>manageError\<close>) is \<open>ControllerState{GrafanaReady: false}\<close>: readiness false, client
  timeout 0, empty admin URL, no selectors. Over a whole invocation, an event is either
  that one or has \<open>GrafanaReady = true\<close>, so the timeout default of 5 shows only in
  the events of the success path.
\<close>

theorem not_ready_events_are_zero:
  "(\<forall>ev \<in> set (published (Trace (manageError env cr issue request))). ev = notReady) \<and>
   (\<forall>err. Get_Reconcile env = Inl err \<and> IsNotFound err \<longrightarrow>
      published (Trace (Reconcile env request)) = [notReady]) \<and>
   (\<forall>ev \<in> set (published (Trace (Reconcile env request))). ev = notReady \<or> GrafanaReady ev) \<and>
   \<not> GrafanaReady notReady \<and> ClientTimeout notReady = 0 \<and> AdminUrl notReady = [] \<and>
   cs_DashboardSelectors notReady = [] \<and> cs_DashboardNamespaceSelector notReady = None"
proof (intro conjI ballI allI impI)
  fix ev
  assume "ev \<in> set (published (Trace (manageError env cr issue request)))"
  then show "ev = notReady"
    using published_manageError_cases [of env cr issue request] by auto
next
  fix err
  assume "Get_Reconcile env = Inl err \<and> IsNotFound err"
  then show "published (Trace (Reconcile env request)) = [notReady]"
    by (simp add: published_Reconcile_no_object)
next
  fix ev
  assume ev: "ev \<in> set (published (Trace (Reconcile env request)))"
  show "ev = notReady \<or> GrafanaReady ev"
  proof (cases "Get_Reconcile env")
    case (Inl err)
    then show ?thesis
      using ev by (simp add: published_Reconcile_no_object split: if_splits)
  next
    case (Inr fetched)
    then show ?thesis
      using ev published_Reconcile_cases [OF Inr, of request] GrafanaReady_readyState
      by auto
  qed
qed (simp_all add: notReady_def)

theorem not_ready_events_are_zero_witness:
  "published (Trace (Reconcile readFailsEnv (''ns'', ''g''))) = [notReady] \<and>
   published (Trace (Reconcile notFoundEnv (''ns'', ''g''))) = [notReady] \<and>
   published (Trace (manageError readFailsEnv sampleCr (GoError Generic ''boom'') (''ns'', ''g''))) =
     [notReady] \<and>
   map ClientTimeout (published (Trace (Reconcile readFailsEnv (''ns'', ''g'')))) = [0] \<and>
   map ClientTimeout (published (Trace (Reconcile notFoundEnv (''ns'', ''g'')))) = [0]"
proof -
  have gone: "Get_Reconcile notFoundEnv = Inl (GoError NotFound ''grafana g not found'')"
    "IsNotFound (GoError NotFound ''grafana g not found'')"
    by (simp_all add: notFoundEnv_def sampleEnv_def IsNotFound_def)
  obtain ev where ev: "published (Trace (Reconcile readFailsEnv (''ns'', ''g''))) = [ev]"
    "\<not> GrafanaReady ev"
    by (simp add: run_defs readFailsEnv_def sampleEnv_def sampleCr_def sampleState_def)
  obtain ev' where ev': "published (Trace (manageError readFailsEnv sampleCr
      (GoError Generic ''boom'') (''ns'', ''g''))) = [ev']"
    by (simp add: run_defs readFailsEnv_def sampleEnv_def sampleCr_def)
  have "ev = notReady"
    using not_ready_events_are_zero [of readFailsEnv sampleCr "GoError Generic ''boom''"
        "(''ns'', ''g'')"] ev
    by simp
  moreover have "ev' = notReady"
    using not_ready_events_are_zero [of readFailsEnv sampleCr "GoError Generic ''boom''"
        "(''ns'', ''g'')"] ev'
    by simp
  moreover have "published (Trace (Reconcile notFoundEnv (''ns'', ''g''))) = [notReady]"
    using not_ready_events_are_zero [of notFoundEnv sampleCr "GoError Generic ''boom''"
        "(''ns'', ''g'')"] gone
    by blast
  moreover have "ClientTimeout notReady = 0"
    using not_ready_events_are_zero [of sampleEnv sampleCr "GoError Generic ''boom''"
        "(''ns'', ''g'')"]
    by blast
  ultimately show ?thesis
    using ev ev' by simp
qed

text \<open>
  C8. In \<open>manageError\<close>, when the status it computed (Failing, with the error's text)
  equals the status of the object it has just fetched, no \<open>Status().Update\<close> call is
  made. In \<open>manageSuccess\<close>, when the status it computed equals the status of the object
  it has just fetched, it makes no \<open>Status().Update\<close> call of its own: none at all when
  the URL then resolves, and when the URL does not resolve its calls are the reads of
  the configuration and the fetch, followed by the calls of \<open>manageError\<close>, which
  compares its own status with its own fetch. So a whole invocation on the success path
  with an unchanged status writes nothing to the object store: the status update is the
  only call of the cycle that changes the stored object.
\<close>

theorem unchanged_status_is_not_written:
  "(\<forall>current. Get_manageError env = Inr current \<and>
      Status (setFailing cr issue) = Status current \<longrightarrow>
      statusWrites (Trace (manageError env cr issue request)) = []) \<and>
   (\<forall>current url. Get_manageSuccess env = Inr current \<and>
      Status (setSuccess env cr) = Status current \<and>
      getGrafanaAdminUrl env (setSuccess env cr) state = Inr url \<longrightarrow>
      statusWrites (Trace (manageSuccess env cr state request)) = []) \<and>
   (\<forall>current err. Get_manageSuccess env = Inr current \<and>
      Status (setSuccess env cr) = Status current \<and>
      getGrafanaAdminUrl env (setSuccess env cr) state = Inl err \<longrightarrow>
      Trace (manageSuccess env cr state request) =
        syncDashboards env @ [ClientGet request] @
        Trace (manageError env (setSuccess env cr) err request) \<and>
      statusWrites (syncDashboards env @ [ClientGet request]) = []) \<and>
   (\<forall>current url. Get_Reconcile env = Inr cr \<and> Read_currentState env = Inr state \<and>
      RunAll_err env = None \<and> reconcileConfigMaps_err env = None \<and>
      Get_manageSuccess env = Inr current \<and>
      Status (setSuccess env cr) = Status current \<and>
      getGrafanaAdminUrl env (setSuccess env cr) state = Inr url \<longrightarrow>
      statusWrites (Trace (Reconcile env request)) = [])"
proof (intro conjI allI impI)
  fix current
  assume "Get_manageError env = Inr current \<and> Status (setFailing cr issue) = Status current"
  then show "statusWrites (Trace (manageError env cr issue request)) = []"
    by (simp add: statusWrites_manageError)
next
  fix current url
  assume "Get_manageSuccess env = Inr current \<and>
      Status (setSuccess env cr) = Status current \<and>
      getGrafanaAdminUrl env (setSuccess env cr) state = Inr url"
  then show "statusWrites (Trace (manageSuccess env cr state request)) = []"
    by (simp add: manageSuccess_unchanged statusWrites_publishReady statusWrites_append
        statusWrites_syncDashboards)
next
  fix current err
  assume "Get_manageSuccess env = Inr current \<and>
      Status (setSuccess env cr) = Status current \<and>
      getGrafanaAdminUrl env (setSuccess env cr) state = Inl err"
  then show "Trace (manageSuccess env cr state request) =
        syncDashboards env @ [ClientGet request] @
        Trace (manageError env (setSuccess env cr) err request)"
    by (simp add: manageSuccess_unchanged publishReady_def preceded_fields)
next
  fix current :: grafana and err :: go_error
  show "statusWrites (syncDashboards env @ [ClientGet request]) = []"
    by (simp add: statusWrites_append statusWrites_syncDashboards)
next
  fix current url
  assume "Get_Reconcile env = Inr cr \<and> Read_currentState env = Inr state \<and>
      RunAll_err env = None \<and> reconcileConfigMaps_err env = None \<and>
      Get_manageSuccess env = Inr current \<and>
      Status (setSuccess env cr) = Status current \<and>
      getGrafanaAdminUrl env (setSuccess env cr) state = Inr url"
  then show "statusWrites (Trace (Reconcile env request)) = []"
    using statusWrites_Reconcile_success [of env cr state current url request] by simp
qed

theorem unchanged_status_is_not_written_witness:
  "Status (setSuccess settledEnv sampleCr) =
     \<lparr>Phase = PhaseReconciling, Message = ''success'', InstalledDashboards = None\<rparr> \<and>
   statusWrites (Trace (Reconcile settledEnv (''ns'', ''g''))) = [] \<and>
   Status (setFailing sampleCr (GoError Generic ''boom'')) =
     \<lparr>Phase = PhaseFailing, Message = ''boom'', InstalledDashboards = None\<rparr> \<and>
   statusWrites (Trace (manageError settledFailingEnv sampleCr (GoError Generic ''boom'')
     (''ns'', ''g''))) = [] \<and>
   Trace (manageSuccess settledEnv sampleCr (sampleState\<lparr>GrafanaService := None\<rparr>) (''ns'', ''g'')) =
     syncDashboards settledEnv @ [ClientGet (''ns'', ''g'')] @
     Trace (manageError settledEnv (setSuccess settledEnv sampleCr)
       (GoError Generic ''failed to find admin url'') (''ns'', ''g'')) \<and>
   statusWrites (syncDashboards settledEnv @ [ClientGet (''ns'', ''g'')]) = []"
proof -
  let ?stored = "sampleCr\<lparr>Status := \<lparr>Phase = PhaseReconciling, Message = ''success'',
                                InstalledDashboards = None\<rparr>\<rparr>"
  let ?failing = "sampleCr\<lparr>Status := \<lparr>Phase = PhaseFailing, Message = ''boom'',
                                InstalledDashboards = None\<rparr>\<rparr>"
  have run: "Get_Reconcile settledEnv = Inr sampleCr"
    "Read_currentState settledEnv = Inr sampleState"
    "RunAll_err settledEnv = None" "reconcileConfigMaps_err settledEnv = None"
    "Get_manageSuccess settledEnv = Inr ?stored"
    by (simp_all add: settledEnv_def sampleEnv_def)
  have same: "Status (setSuccess settledEnv sampleCr) = Status ?stored"
    by (simp add: run_defs settledEnv_def sampleEnv_def sampleCr_def)
  have url: "getGrafanaAdminUrl settledEnv (setSuccess settledEnv sampleCr) sampleState =
      Inr ''http://g.ns.svc.cluster.local:3000''"
    by (simp add: run_defs settledEnv_def sampleEnv_def sampleCr_def sampleState_def)
  have noUrl: "getGrafanaAdminUrl settledEnv (setSuccess settledEnv sampleCr)
      (sampleState\<lparr>GrafanaService := None\<rparr>) = Inl (GoError Generic ''failed to find admin url'')"
    by (simp add: run_defs settledEnv_def sampleEnv_def sampleCr_def sampleState_def)
  have fetched: "Get_manageError settledFailingEnv = Inr ?failing"
    by (simp add: settledFailingEnv_def readFailsEnv_def sampleEnv_def)
  have sameFailing: "Status (setFailing sampleCr (GoError Generic ''boom'')) = Status ?failing"
    by (simp add: setFailing_def sampleCr_def)
  have "statusWrites (Trace (Reconcile settledEnv (''ns'', ''g''))) = []"
    using unchanged_status_is_not_written [of settledEnv sampleCr _ "(''ns'', ''g'')" sampleState]
      run same url
    by blast
  moreover have "statusWrites (Trace (manageError settledFailingEnv sampleCr
      (GoError Generic ''boom'') (''ns'', ''g''))) = []"
    using unchanged_status_is_not_written [of settledFailingEnv sampleCr
        "GoError Generic ''boom''" "(''ns'', ''g'')" sampleState]
      fetched sameFailing
    by blast
  moreover have "Trace (manageSuccess settledEnv sampleCr (sampleState\<lparr>GrafanaService := None\<rparr>)
      (''ns'', ''g'')) =
     syncDashboards settledEnv @ [ClientGet (''ns'', ''g'')] @
     Trace (manageError settledEnv (setSuccess settledEnv sampleCr)
       (GoError Generic ''failed to find admin url'') (''ns'', ''g'')) \<and>
     statusWrites (syncDashboards settledEnv @ [ClientGet (''ns'', ''g'')]) = []"
    using unchanged_status_is_not_written [of settledEnv sampleCr _ "(''ns'', ''g'')"
        "sampleState\<lparr>GrafanaService := None\<rparr>"]
      run(5) same noUrl
    by blast
  ultimately show ?thesis
    using same sameFailing by simp
qed

text \<open>
  C1, as the code has it. An invocation sends at most one readiness event. It sends
  exactly one when the first fetch answers NotFound, and none when the first fetch fails
  otherwise. Past the first fetch, its calls end either with the one event of the success
  path, and it sends exactly one when every step of the success path succeeds; or with
  the calls of the error path (\<open>manageError\<close>), with nothing sent before them. The
  error path sends exactly one event when its own fetch succeeds and its status update
  is not needed or succeeds, and none when its fetch fails or its status update fails,
  with a conflict or otherwise: both are early returns placed before the send.
\<close>

theorem readiness_events_per_invocation:
  "length (published (Trace (Reconcile env request))) \<le> 1 \<and>
   (\<forall>err. Get_Reconcile env = Inl err \<longrightarrow>
      published (Trace (Reconcile env request)) = (if IsNotFound err then [notReady] else [])) \<and>
   (\<forall>cr state current url.
      Get_Reconcile env = Inr cr \<and> Read_currentState env = Inr state \<and>
      RunAll_err env = None \<and> reconcileConfigMaps_err env = None \<and>
      Get_manageSuccess env = Inr current \<and>
      (Status (setSuccess env cr) = Status current \<or> Update_manageSuccess env = None) \<and>
      getGrafanaAdminUrl env (setSuccess env cr) state = Inr url \<longrightarrow>
      published (Trace (Reconcile env request)) = [readyState (setSuccess env cr) url]) \<and>
   (\<forall>cr issue.
      published (Trace (manageError env cr issue request)) =
        (case Get_manageError env of
           Inl err \<Rightarrow> []
         | Inr current \<Rightarrow>
             if Status (setFailing cr issue) = Status current \<or> Update_manageError env = None
             then [notReady] else [])) \<and>
   (\<forall>cr. Get_Reconcile env = Inr cr \<longrightarrow>
      (\<exists>sofar url. Trace (Reconcile env request) =
          sofar @ [Publish (readyState (setSuccess env cr) url)] \<and> published sofar = []) \<or>
      (\<exists>sofar cr' issue. Trace (Reconcile env request) =
          sofar @ Trace (manageError env cr' issue request) \<and> published sofar = [] \<and>
          (cr' = cr \<or> cr' = setSuccess env cr)))"
proof (intro conjI allI impI)
  show "length (published (Trace (Reconcile env request))) \<le> 1"
    by (rule published_at_most_one)
next
  fix err
  assume "Get_Reconcile env = Inl err"
  then show "published (Trace (Reconcile env request)) =
      (if IsNotFound err then [notReady] else [])"
    by (rule published_Reconcile_no_object)
next
  fix cr state current url
  assume "Get_Reconcile env = Inr cr \<and> Read_currentState env = Inr state \<and>
      RunAll_err env = None \<and> reconcileConfigMaps_err env = None \<and>
      Get_manageSuccess env = Inr current \<and>
      (Status (setSuccess env cr) = Status current \<or> Update_manageSuccess env = None) \<and>
      getGrafanaAdminUrl env (setSuccess env cr) state = Inr url"
  then show "published (Trace (Reconcile env request)) = [readyState (setSuccess env cr) url]"
    using published_Reconcile_success [of env cr state current url request] by blast
next
  fix cr issue
  show "published (Trace (manageError env cr issue request)) =
        (case Get_manageError env of
           Inl err \<Rightarrow> []
         | Inr current \<Rightarrow>
             if Status (setFailing cr issue) = Status current \<or> Update_manageError env = None
             then [notReady] else [])"
    by (rule published_manageError)
next
  fix cr
  assume "Get_Reconcile env = Inr cr"
  then show "(\<exists>sofar url. Trace (Reconcile env request) =
          sofar @ [Publish (readyState (setSuccess env cr) url)] \<and> published sofar = []) \<or>
      (\<exists>sofar cr' issue. Trace (Reconcile env request) =
          sofar @ Trace (manageError env cr' issue request) \<and> published sofar = [] \<and>
          (cr' = cr \<or> cr' = setSuccess env cr))"
    by (rule Reconcile_shape)
qed

theorem readiness_events_per_invocation_witness:
  "length (published (Trace (Reconcile sampleEnv (''ns'', ''g'')))) = 1 \<and>
   length (published (Trace (Reconcile notFoundEnv (''ns'', ''g'')))) = 1 \<and>
   length (published (Trace (Reconcile fetchFailsEnv (''ns'', ''g'')))) = 0 \<and>
   length (published (Trace (Reconcile readFailsEnv (''ns'', ''g'')))) = 1 \<and>
   length (published (Trace (Reconcile refetchFailsEnv (''ns'', ''g'')))) = 0 \<and>
   length (published (Trace (Reconcile conflictEnv (''ns'', ''g'')))) = 0 \<and>
   length (published (Trace (Reconcile writeFailsEnv (''ns'', ''g'')))) = 0"
proof -
  let ?r = "(''ns'', ''g'')"
  let ?boom = "GoError Generic ''boom''"
  have ok: "Get_Reconcile sampleEnv = Inr sampleCr" "Read_currentState sampleEnv = Inr sampleState"
    "RunAll_err sampleEnv = None" "reconcileConfigMaps_err sampleEnv = None"
    "Get_manageSuccess sampleEnv = Inr sampleCr" "Update_manageSuccess sampleEnv = None"
    by (simp_all add: sampleEnv_def)
  have url: "getGrafanaAdminUrl sampleEnv (setSuccess sampleEnv sampleCr) sampleState =
      Inr ''http://g.ns.svc.cluster.local:3000''"
    by (simp add: run_defs sampleEnv_def sampleCr_def sampleState_def)
  have "length (published (Trace (Reconcile sampleEnv ?r))) = 1"
    using readiness_events_per_invocation [of sampleEnv ?r] ok url by simp
  moreover have "length (published (Trace (Reconcile notFoundEnv ?r))) = 1"
    using readiness_events_per_invocation [of notFoundEnv ?r]
    by (simp add: notFoundEnv_def sampleEnv_def IsNotFound_def)
  moreover have "length (published (Trace (Reconcile fetchFailsEnv ?r))) = 0"
    using readiness_events_per_invocation [of fetchFailsEnv ?r]
    by (simp add: fetchFailsEnv_def sampleEnv_def IsNotFound_def)
  moreover have "length (published (Trace (Reconcile readFailsEnv ?r))) = 1"
  proof -
    have "published (Trace (Reconcile readFailsEnv ?r)) =
        published (Trace (manageError readFailsEnv sampleCr ?boom ?r))"
      by (rule published_Reconcile_read_error) (simp_all add: readFailsEnv_def sampleEnv_def)
    moreover have "Get_manageError readFailsEnv = Inr sampleCr"
      "Update_manageError readFailsEnv = None"
      by (simp_all add: readFailsEnv_def sampleEnv_def)
    ultimately show ?thesis
      using readiness_events_per_invocation [of readFailsEnv ?r] by simp
  qed
  moreover have "length (published (Trace (Reconcile refetchFailsEnv ?r))) = 0"
  proof -
    have "published (Trace (Reconcile refetchFailsEnv ?r)) =
        published (Trace (manageError refetchFailsEnv sampleCr ?boom ?r))"
      by (rule published_Reconcile_read_error)
         (simp_all add: refetchFailsEnv_def readFailsEnv_def sampleEnv_def)
    moreover have "Get_manageError refetchFailsEnv = Inl (GoError Generic ''connection refused'')"
      by (simp add: refetchFailsEnv_def readFailsEnv_def sampleEnv_def)
    ultimately show ?thesis
      using readiness_events_per_invocation [of refetchFailsEnv ?r] by simp
  qed
  moreover have "length (published (Trace (Reconcile conflictEnv ?r))) = 0"
  proof -
    have "published (Trace (Reconcile conflictEnv ?r)) =
        published (Trace (manageError conflictEnv sampleCr ?boom ?r))"
      by (rule published_Reconcile_read_error)
         (simp_all add: conflictEnv_def readFailsEnv_def sampleEnv_def)
    moreover have "Get_manageError conflictEnv = Inr sampleCr"
      "Update_manageError conflictEnv = Some (GoError Conflict ''the object has been modified'')"
      "Status (setFailing sampleCr ?boom) \<noteq> Status sampleCr"
      by (simp_all add: conflictEnv_def readFailsEnv_def sampleEnv_def setFailing_def sampleCr_def)
    ultimately show ?thesis
      using readiness_events_per_invocation [of conflictEnv ?r] by simp
  qed
  moreover have "length (published (Trace (Reconcile writeFailsEnv ?r))) = 0"
  proof -
    have "published (Trace (Reconcile writeFailsEnv ?r)) =
        published (Trace (manageError writeFailsEnv sampleCr ?boom ?r))"
      by (rule published_Reconcile_read_error)
         (simp_all add: writeFailsEnv_def readFailsEnv_def sampleEnv_def)
    moreover have "Get_manageError writeFailsEnv = Inr sampleCr"
      "Update_manageError writeFailsEnv = Some (GoError Generic ''etcd unavailable'')"
      "Status (setFailing sampleCr ?boom) \<noteq> Status sampleCr"
      by (simp_all add: writeFailsEnv_def readFailsEnv_def sampleEnv_def setFailing_def sampleCr_def)
    ultimately show ?thesis
      using readiness_events_per_invocation [of writeFailsEnv ?r] by simp
  qed
  ultimately show ?thesis by simp
qed

text \<open>
  C1 as the claim has it fails on the error path. A snapshot read fails, which is a
  recoverable failure, and then the error path's own fetch fails: no event is sent. The
  same when its status update meets a conflict.
\<close>

theorem readiness_events_counterexample:
  "Get_Reconcile refetchFailsEnv = Inr sampleCr \<and>
   Read_currentState refetchFailsEnv = Inl (GoError Generic ''boom'') \<and>
   published (Trace (Reconcile refetchFailsEnv (''ns'', ''g''))) = [] \<and>
   Get_Reconcile conflictEnv = Inr sampleCr \<and>
   Read_currentState conflictEnv = Inl (GoError Generic ''boom'') \<and>
   published (Trace (Reconcile conflictEnv (''ns'', ''g''))) = []"
  by (simp add: run_defs refetchFailsEnv_def conflictEnv_def readFailsEnv_def sampleEnv_def
      sampleCr_def)

text \<open>
  C2, as the code has it, on the error path. When the status update of \<open>manageError\<close>
  fails with a conflict, the error is dropped: \<open>manageError\<close> returns a nil error. It
  returns at that point, though, with \<open>reconcile.Result{}\<close>: its calls are the warning,
  the fetch and the failed update, so the dashboards are not invalidated, no readiness
  event is sent and no requeue delay is asked for, unlike a cycle whose update
  succeeded.
\<close>

theorem conflict_on_error_path:
  assumes "Get_manageError env = Inr current"
    and "Update_manageError env = Some err"
    and "IsConflict err"
  shows "Err (manageError env cr issue request) = None \<and>
         (Status (setFailing cr issue) \<noteq> Status current \<longrightarrow>
            manageError env cr issue request =
              \<lparr>Result = \<lparr>Requeue = False, RequeueAfter = 0\<rparr>, Err = None,
               Trace = [RecorderEvent cr ''Warning'' ''ProcessingError'' (err_Error issue),
                        ClientGet request, StatusUpdate (setFailing cr issue)]\<rparr>)"
  using assms by (simp add: manageError_def Let_def emptyResult_def)

theorem conflict_on_error_path_witness:
  "IsConflict (GoError Conflict ''the object has been modified'') \<and>
   Status (setFailing sampleCr (GoError Generic ''boom'')) \<noteq> Status sampleCr \<and>
   manageError conflictEnv sampleCr (GoError Generic ''boom'') (''ns'', ''g'') =
     \<lparr>Result = \<lparr>Requeue = False, RequeueAfter = 0\<rparr>, Err = None,
      Trace = [RecorderEvent sampleCr ''Warning'' ''ProcessingError'' ''boom'',
               ClientGet (''ns'', ''g''),
               StatusUpdate (setFailing sampleCr (GoError Generic ''boom''))]\<rparr>"
proof -
  have fetch: "Get_manageError conflictEnv = Inr sampleCr"
    and update: "Update_manageError conflictEnv = Some (GoError Conflict ''the object has been modified'')"
    by (simp_all add: conflictEnv_def readFailsEnv_def sampleEnv_def)
  have conflict: "IsConflict (GoError Conflict ''the object has been modified'')"
    by (simp add: IsConflict_def)
  have differs: "Status (setFailing sampleCr (GoError Generic ''boom'')) \<noteq> Status sampleCr"
    by (simp add: setFailing_def sampleCr_def)
  show ?thesis
    using conflict_on_error_path [OF fetch update conflict, of sampleCr "GoError Generic ''boom''"
        "(''ns'', ''g'')"] conflict differs
    by simp
qed

text \<open>
  C2 as the claim has it fails on both paths. On the error path, the run whose status
  update meets a conflict returns \<open>reconcile.Result{}\<close> and sends nothing, where the
  same run with a successful update returns the requeue delay and sends one event. On
  the success path, the run whose status update meets a conflict goes through the error
  path and sends a not-ready event, where the same run with a successful update sends a
  ready one.
\<close>

theorem conflict_counterexample:
  "Update_manageError conflictEnv = Some (GoError Conflict ''the object has been modified'') \<and>
   returned (Reconcile conflictEnv (''ns'', ''g'')) = (\<lparr>Requeue = False, RequeueAfter = 0\<rparr>, None) \<and>
   published (Trace (Reconcile conflictEnv (''ns'', ''g''))) = [] \<and>
   Update_manageError readFailsEnv = None \<and>
   returned (Reconcile readFailsEnv (''ns'', ''g'')) = (\<lparr>Requeue = False, RequeueAfter = 10\<rparr>, None) \<and>
   published (Trace (Reconcile readFailsEnv (''ns'', ''g''))) = [notReady] \<and>
   Update_manageSuccess successConflictEnv =
     Some (GoError Conflict ''the object has been modified'') \<and>
   map GrafanaReady (published (Trace (Reconcile successConflictEnv (''ns'', ''g'')))) = [False] \<and>
   Update_manageSuccess sampleEnv = None \<and>
   map GrafanaReady (published (Trace (Reconcile sampleEnv (''ns'', ''g'')))) = [True]"
  by (simp add: run_defs returned_def conflictEnv_def successConflictEnv_def readFailsEnv_def
      sampleEnv_def sampleCr_def sampleState_def)

text \<open>
  C3, as the code has it. Each of the recoverable failures (the snapshot read fails, the
  actions fail, the discovery fails, the URL does not resolve, the status update of the
  success path fails with an error that is not a conflict) hands the invocation to the
  error path, and the invocation returns what \<open>manageError\<close> returns. That is the
  requeue delay and a nil error when the fetch of \<open>manageError\<close> succeeds and its status
  update is not needed or succeeds. When its fetch fails it is \<open>reconcile.Result{}\<close>
  and the fetch error; when its status update fails it is \<open>reconcile.Result{}\<close> and the
  update error, or a nil error for a conflict.
\<close>

theorem recoverable_failure_return:
  assumes "Get_Reconcile env = Inr cr"
  shows "(\<forall>err. Read_currentState env = Inl err \<longrightarrow>
            returned (Reconcile env request) = returned (manageError env cr err request)) \<and>
         (\<forall>state err. Read_currentState env = Inr state \<and> RunAll_err env = Some err \<longrightarrow>
            returned (Reconcile env request) = returned (manageError env cr err request)) \<and>
         (\<forall>state err. Read_currentState env = Inr state \<and> RunAll_err env = None \<and>
            reconcileConfigMaps_err env = Some err \<longrightarrow>
            returned (Reconcile env request) = returned (manageError env cr err request)) \<and>
         (\<forall>state current err. Read_currentState env = Inr state \<and> RunAll_err env = None \<and>
            reconcileConfigMaps_err env = None \<and> Get_manageSuccess env = Inr current \<and>
            (Status (setSuccess env cr) = Status current \<or> Update_manageSuccess env = None) \<and>
            getGrafanaAdminUrl env (setSuccess env cr) state = Inl err \<longrightarrow>
            returned (Reconcile env request) =
              returned (manageError env (setSuccess env cr) err request)) \<and>
         (\<forall>state current err. Read_currentState env = Inr state \<and> RunAll_err env = None \<and>
            reconcileConfigMaps_err env = None \<and> Get_manageSuccess env = Inr current \<and>
            Status (setSuccess env cr) \<noteq> Status current \<and>
            Update_manageSuccess env = Some err \<and> \<not> IsConflict err \<longrightarrow>
            returned (Reconcile env request) =
              returned (manageError env (setSuccess env cr) err request)) \<and>
         (\<forall>cr' issue.
            returned (manageError env cr' issue request) =
              (case Get_manageError env of
                 Inl err \<Rightarrow> (\<lparr>Requeue = False, RequeueAfter = 0\<rparr>, Some err)
               | Inr current \<Rightarrow>
                   if Status (setFailing cr' issue) = Status current
                   then (\<lparr>Requeue = False, RequeueAfter = RequeueDelay env\<rparr>, None)
                   else (case Update_manageError env of
                           None \<Rightarrow> (\<lparr>Requeue = False, RequeueAfter = RequeueDelay env\<rparr>, None)
                         | Some err \<Rightarrow>
                             (\<lparr>Requeue = False, RequeueAfter = 0\<rparr>,
                              if IsConflict err then None else Some err))))"
proof (intro conjI allI impI)
  fix err
  assume "Read_currentState env = Inl err"
  then show "returned (Reconcile env request) = returned (manageError env cr err request)"
    using assms by (simp add: returned_Reconcile_read_error)
next
  fix state err
  assume "Read_currentState env = Inr state \<and> RunAll_err env = Some err"
  then show "returned (Reconcile env request) = returned (manageError env cr err request)"
    using assms by (simp add: Reconcile_run_error returned_preceded)
next
  fix state err
  assume "Read_currentState env = Inr state \<and> RunAll_err env = None \<and>
            reconcileConfigMaps_err env = Some err"
  then show "returned (Reconcile env request) = returned (manageError env cr err request)"
    using assms by (simp add: Reconcile_discovery_error returned_preceded)
next
  fix state current err
  assume run: "Read_currentState env = Inr state \<and> RunAll_err env = None \<and>
            reconcileConfigMaps_err env = None \<and> Get_manageSuccess env = Inr current \<and>
            (Status (setSuccess env cr) = Status current \<or> Update_manageSuccess env = None) \<and>
            getGrafanaAdminUrl env (setSuccess env cr) state = Inl err"
  then obtain sofar where "manageSuccess env cr state request =
      preceded sofar (manageError env (setSuccess env cr) err request)"
    using manageSuccess_url_error [of env current cr state err request] by blast
  then show "returned (Reconcile env request) =
      returned (manageError env (setSuccess env cr) err request)"
    using assms run by (simp add: Reconcile_applied returned_preceded)
next
  fix state current err
  assume "Read_currentState env = Inr state \<and> RunAll_err env = None \<and>
            reconcileConfigMaps_err env = None \<and> Get_manageSuccess env = Inr current \<and>
            Status (setSuccess env cr) \<noteq> Status current \<and>
            Update_manageSuccess env = Some err \<and> \<not> IsConflict err"
  then show "returned (Reconcile env request) =
      returned (manageError env (setSuccess env cr) err request)"
    using assms by (simp add: Reconcile_applied manageSuccess_write_error returned_preceded)
next
  fix cr' issue
  show "returned (manageError env cr' issue request) =
      (case Get_manageError env of
         Inl err \<Rightarrow> (\<lparr>Requeue = False, RequeueAfter = 0\<rparr>, Some err)
       | Inr current \<Rightarrow>
           if Status (setFailing cr' issue) = Status current
           then (\<lparr>Requeue = False, RequeueAfter = RequeueDelay env\<rparr>, None)
           else (case Update_manageError env of
                   None \<Rightarrow> (\<lparr>Requeue = False, RequeueAfter = RequeueDelay env\<rparr>, None)
                 | Some err \<Rightarrow>
                     (\<lparr>Requeue = False, RequeueAfter = 0\<rparr>,
                      if IsConflict err then None else Some err)))"
    by (rule returned_manageError)
qed

theorem recoverable_failure_return_witness:
  "returned (Reconcile readFailsEnv (''ns'', ''g'')) = (\<lparr>Requeue = False, RequeueAfter = 10\<rparr>, None) \<and>
   returned (Reconcile runFailsEnv (''ns'', ''g'')) = (\<lparr>Requeue = False, RequeueAfter = 10\<rparr>, None) \<and>
   returned (Reconcile discoveryFailsEnv (''ns'', ''g'')) =
     (\<lparr>Requeue = False, RequeueAfter = 10\<rparr>, None) \<and>
   returned (Reconcile noUrlEnv (''ns'', ''g'')) = (\<lparr>Requeue = False, RequeueAfter = 10\<rparr>, None) \<and>
   returned (Reconcile successWriteFailsEnv (''ns'', ''g'')) =
     (\<lparr>Requeue = False, RequeueAfter = 10\<rparr>, None) \<and>
   returned (Reconcile refetchFailsEnv (''ns'', ''g'')) =
     (\<lparr>Requeue = False, RequeueAfter = 0\<rparr>, Some (GoError Generic ''connection refused'')) \<and>
   returned (Reconcile writeFailsEnv (''ns'', ''g'')) =
     (\<lparr>Requeue = False, RequeueAfter = 0\<rparr>, Some (GoError Generic ''etcd unavailable'')) \<and>
   returned (Reconcile conflictEnv (''ns'', ''g'')) = (\<lparr>Requeue = False, RequeueAfter = 0\<rparr>, None)"
proof -
  let ?r = "(''ns'', ''g'')"
  have differs: "Status (setFailing sampleCr issue) \<noteq> Status sampleCr"
    "Status (setFailing (setSuccess sampleEnv sampleCr) issue) \<noteq> Status sampleCr"
    "Status (setSuccess sampleEnv sampleCr) \<noteq> Status sampleCr" for issue
    by (simp_all add: setFailing_def setSuccess_def Let_def sampleCr_def sampleEnv_def)
  have noUrl: "getGrafanaAdminUrl noUrlEnv (setSuccess noUrlEnv sampleCr)
      (sampleState\<lparr>GrafanaService := None\<rparr>) = Inl (GoError Generic ''failed to find admin url'')"
    by (simp add: run_defs noUrlEnv_def sampleEnv_def sampleCr_def sampleState_def)
  have same: "setSuccess noUrlEnv sampleCr = setSuccess sampleEnv sampleCr"
    "setSuccess successWriteFailsEnv sampleCr = setSuccess sampleEnv sampleCr"
    by (simp_all add: setSuccess_def Let_def noUrlEnv_def successWriteFailsEnv_def sampleEnv_def)
  have generic: "\<not> IsConflict (GoError Generic ''etcd unavailable'')"
    by (simp add: IsConflict_def)
  have conflict: "IsConflict (GoError Conflict ''the object has been modified'')"
    by (simp add: IsConflict_def)
  have "returned (Reconcile readFailsEnv ?r) = (\<lparr>Requeue = False, RequeueAfter = 10\<rparr>, None)"
    using recoverable_failure_return [of readFailsEnv sampleCr ?r] differs
    by (simp add: readFailsEnv_def sampleEnv_def)
  moreover have "returned (Reconcile runFailsEnv ?r) = (\<lparr>Requeue = False, RequeueAfter = 10\<rparr>, None)"
    using recoverable_failure_return [of runFailsEnv sampleCr ?r] differs
    by (simp add: runFailsEnv_def sampleEnv_def)
  moreover have "returned (Reconcile discoveryFailsEnv ?r) =
      (\<lparr>Requeue = False, RequeueAfter = 10\<rparr>, None)"
    using recoverable_failure_return [of discoveryFailsEnv sampleCr ?r] differs
    by (simp add: discoveryFailsEnv_def sampleEnv_def)
  moreover have "returned (Reconcile noUrlEnv ?r) = (\<lparr>Requeue = False, RequeueAfter = 10\<rparr>, None)"
    using recoverable_failure_return [of noUrlEnv sampleCr ?r] differs noUrl same
    by (simp add: noUrlEnv_def sampleEnv_def)
  moreover have "returned (Reconcile successWriteFailsEnv ?r) =
      (\<lparr>Requeue = False, RequeueAfter = 10\<rparr>, None)"
    using recoverable_failure_return [of successWriteFailsEnv sampleCr ?r] differs same generic
    by (simp add: successWriteFailsEnv_def sampleEnv_def)
  moreover have "returned (Reconcile refetchFailsEnv ?r) =
      (\<lparr>Requeue = False, RequeueAfter = 0\<rparr>, Some (GoError Generic ''connection refused''))"
    using recoverable_failure_return [of refetchFailsEnv sampleCr ?r]
    by (simp add: refetchFailsEnv_def readFailsEnv_def sampleEnv_def)
  moreover have "returned (Reconcile writeFailsEnv ?r) =
      (\<lparr>Requeue = False, RequeueAfter = 0\<rparr>, Some (GoError Generic ''etcd unavailable''))"
    using recoverable_failure_return [of writeFailsEnv sampleCr ?r] differs generic
    by (simp add: writeFailsEnv_def readFailsEnv_def sampleEnv_def)
  moreover have "returned (Reconcile conflictEnv ?r) = (\<lparr>Requeue = False, RequeueAfter = 0\<rparr>, None)"
    using recoverable_failure_return [of conflictEnv sampleCr ?r] differs conflict
    by (simp add: conflictEnv_def readFailsEnv_def sampleEnv_def)
  ultimately show ?thesis by simp
qed

text \<open>
  C3 as the claim has it fails when the error path cannot fetch the object: after a failed
  snapshot read the invocation returns \<open>reconcile.Result{}\<close>, not the requeue delay of
  10, and it returns the fetch error, not nil.
\<close>

theorem recoverable_failure_counterexample:
  "Get_Reconcile refetchFailsEnv = Inr sampleCr \<and>
   Read_currentState refetchFailsEnv = Inl (GoError Generic ''boom'') \<and>
   RequeueDelay refetchFailsEnv = 10 \<and>
   Result (Reconcile refetchFailsEnv (''ns'', ''g'')) = \<lparr>Requeue = False, RequeueAfter = 0\<rparr> \<and>
   Err (Reconcile refetchFailsEnv (''ns'', ''g'')) = Some (GoError Generic ''connection refused'')"
  by (simp add: run_defs refetchFailsEnv_def readFailsEnv_def sampleEnv_def sampleCr_def)

end
